theory Spec2Isabelle
  imports Complex_Main "HOL-Library.Multiset" "HOL-Library.Sublist"
begin

section \<open>Time\<close>

text \<open>
  A \<^verbatim>\<open>datetime\<close> is a point on the naive (zone-free) timeline, counted in microseconds,
  the resolution of Python's \<^verbatim>\<open>datetime\<close>; a \<^verbatim>\<open>timedelta\<close> is a signed number of
  microseconds (Python's \<^verbatim>\<open>timedelta\<close> may be zero or negative); a \<^verbatim>\<open>date\<close> is a day
  number. Every datetime of the repository is naive (\<^verbatim>\<open>datetime.now()\<close>,
  \<^verbatim>\<open>datetime.combine\<close>, \<^verbatim>\<open>fromisoformat\<close> of what \<^verbatim>\<open>isoformat\<close> wrote), so comparisons
  never raise. The bounds of Python's calendar (years 1 to 9999) are not modelled: the
  timeline is all of \<open>int\<close>.
\<close>

type_synonym datetime = int
type_synonym timedelta = int
type_synonym date = int

definition usec_per_day :: int where
  "usec_per_day = 86400000000"

text \<open>\<^verbatim>\<open>datetime.date()\<close>: the day a point of time falls on.\<close>

definition date_of :: "datetime \<Rightarrow> date" where
  "date_of t = t div usec_per_day"

section \<open>Animals (core.py)\<close>

text \<open>
  The three concrete classes of \<^verbatim>\<open>Animal\<close> with the fields each constructor adds.
  \<^verbatim>\<open>Animal\<close> defines no \<^verbatim>\<open>__eq__\<close>, so \<^verbatim>\<open>a in zoo.animals\<close> and membership in a
  Python \<^verbatim>\<open>set\<close> compare object identity; \<open>a_ref\<close> is that identity.
\<close>

datatype animal_body =
    Bird (wing_span: real) (can_fly: bool)
  | Mammal (is_domestic: bool) (fur_type: string)
  | Reptile (is_venomous: bool)

record animal =
  a_ref :: nat
  a_name :: string
  a_age :: int
  a_species :: string
  a_body :: animal_body

text \<open>The constructors \<^verbatim>\<open>Bird.__init__\<close>, \<^verbatim>\<open>Mammal.__init__\<close>, \<^verbatim>\<open>Reptile.__init__\<close>;
  the first argument is the identity of the new object.\<close>

definition new_Bird :: "nat \<Rightarrow> string \<Rightarrow> int \<Rightarrow> real \<Rightarrow> bool \<Rightarrow> animal" where
  "new_Bird r name age ws cf =
     \<lparr>a_ref = r, a_name = name, a_age = age, a_species = ''Bird'', a_body = Bird ws cf\<rparr>"

definition new_Mammal :: "nat \<Rightarrow> string \<Rightarrow> int \<Rightarrow> string \<Rightarrow> bool \<Rightarrow> string \<Rightarrow> animal" where
  "new_Mammal r name age species domestic fur =
     \<lparr>a_ref = r, a_name = name, a_age = age, a_species = species, a_body = Mammal domestic fur\<rparr>"

definition new_Reptile :: "nat \<Rightarrow> string \<Rightarrow> int \<Rightarrow> bool \<Rightarrow> animal" where
  "new_Reptile r name age ven =
     \<lparr>a_ref = r, a_name = name, a_age = age, a_species = ''Reptile'', a_body = Reptile ven\<rparr>"

text \<open>\<^verbatim>\<open>animal.__class__.__name__\<close>.\<close>

definition animal_class_name :: "animal \<Rightarrow> string" where
  "animal_class_name a =
     (case a_body a of Bird _ _ \<Rightarrow> ''Bird'' | Mammal _ _ \<Rightarrow> ''Mammal'' | Reptile _ \<Rightarrow> ''Reptile'')"

section \<open>Staff (staff.py)\<close>

datatype staff_class = ZooKeeper | Veterinarian | Guide

record staff =
  s_ref :: nat
  s_class :: staff_class
  s_name :: string
  s_staff_id :: int
  s_hire_date :: date

definition staff_class_name :: "staff \<Rightarrow> string" where
  "staff_class_name s =
     (case s_class s of ZooKeeper \<Rightarrow> ''ZooKeeper'' | Veterinarian \<Rightarrow> ''Veterinarian''
      | Guide \<Rightarrow> ''Guide'')"

section \<open>Events (events.py)\<close>

datatype EventType = FEEDING | MEDICAL_CHECK | TOUR | SHOW | CLEANING | ENRICHMENT

text \<open>
  The class of an event object: the dataclass \<^verbatim>\<open>ZooEvent\<close> itself, which is concrete, or
  one of its three subclasses with the attributes the subclass adds. The \<^verbatim>\<open>observers\<close>
  list plays no part in scheduling, reporting or persistence and is left out.
\<close>

datatype event_class =
    ZooEvent
  | FeedingEvent (food_type: string)
  | MedicalCheckEvent
  | TourEvent (max_visitors: int) (visitor_count: int)

record zoo_event =
  e_class :: event_class
  event_type :: EventType
  e_name :: string
  description :: string
  start_time :: datetime
  duration :: timedelta
  location :: string
  e_staff :: "staff list"
  e_animals :: "animal list"

text \<open>\<^verbatim>\<open>description or default\<close>: the empty string is falsy.\<close>

definition or_default :: "string \<Rightarrow> string \<Rightarrow> string" where
  "or_default s d = (if s = [] then d else s)"

definition new_FeedingEvent ::
  "string \<Rightarrow> datetime \<Rightarrow> string \<Rightarrow> string \<Rightarrow> animal list \<Rightarrow> staff list \<Rightarrow> timedelta \<Rightarrow> string
    \<Rightarrow> zoo_event" where
  "new_FeedingEvent name start loc food anims stf dur descr =
     \<lparr>e_class = FeedingEvent food, event_type = FEEDING, e_name = name,
      description = or_default descr (''Feeding time with '' @ food @ ''!''),
      start_time = start, duration = dur, location = loc, e_staff = stf, e_animals = anims\<rparr>"

definition new_MedicalCheckEvent ::
  "string \<Rightarrow> datetime \<Rightarrow> string \<Rightarrow> animal list \<Rightarrow> staff list \<Rightarrow> timedelta \<Rightarrow> string
    \<Rightarrow> zoo_event" where
  "new_MedicalCheckEvent name start loc anims stf dur descr =
     \<lparr>e_class = MedicalCheckEvent, event_type = MEDICAL_CHECK, e_name = name,
      description = or_default descr ''Routine medical check-up'',
      start_time = start, duration = dur, location = loc, e_staff = stf, e_animals = anims\<rparr>"

definition new_TourEvent ::
  "string \<Rightarrow> datetime \<Rightarrow> string \<Rightarrow> staff list \<Rightarrow> timedelta \<Rightarrow> string \<Rightarrow> int \<Rightarrow> zoo_event" where
  "new_TourEvent name start loc stf dur descr maxv =
     \<lparr>e_class = TourEvent maxv 0, event_type = TOUR, e_name = name,
      description = or_default descr ''Guided tour of the zoo'',
      start_time = start, duration = dur, location = loc, e_staff = stf, e_animals = []\<rparr>"

definition new_ZooEvent ::
  "EventType \<Rightarrow> string \<Rightarrow> string \<Rightarrow> datetime \<Rightarrow> timedelta \<Rightarrow> string \<Rightarrow> staff list \<Rightarrow> animal list
    \<Rightarrow> zoo_event" where
  "new_ZooEvent ty name descr start dur loc stf anims =
     \<lparr>e_class = ZooEvent, event_type = ty, e_name = name, description = descr,
      start_time = start, duration = dur, location = loc, e_staff = stf, e_animals = anims\<rparr>"

definition event_class_name :: "zoo_event \<Rightarrow> string" where
  "event_class_name e =
     (case e_class e of ZooEvent \<Rightarrow> ''ZooEvent'' | FeedingEvent _ \<Rightarrow> ''FeedingEvent''
      | MedicalCheckEvent \<Rightarrow> ''MedicalCheckEvent'' | TourEvent _ _ \<Rightarrow> ''TourEvent'')"

text \<open>The property \<^verbatim>\<open>ZooEvent.end_time\<close>.\<close>

definition end_time :: "zoo_event \<Rightarrow> datetime" where
  "end_time e = start_time e + duration e"


datatype error = KeyError string | ValueError string | AttributeError string

text \<open>
  \<^verbatim>\<open>TourEvent.add_visitors(count)\<close>: the returned flag and the event after the call. Only
  a \<^verbatim>\<open>TourEvent\<close> has the method.
\<close>

definition add_visitors :: "int \<Rightarrow> zoo_event \<Rightarrow> error + (bool \<times> zoo_event)" where
  "add_visitors count' e =
     (case e_class e of
        TourEvent maxv vc \<Rightarrow>
          if vc + count' \<le> maxv
          then Inr (True, e\<lparr>e_class := TourEvent maxv (vc + count')\<rparr>)
          else Inr (False, e)
      | _ \<Rightarrow> Inl (AttributeError ''add_visitors''))"

text \<open>A sequence of \<^verbatim>\<open>add_visitors\<close> calls on one event, the flags dropped.\<close>

fun add_visitors_calls :: "int list \<Rightarrow> zoo_event \<Rightarrow> error + zoo_event" where
  "add_visitors_calls [] e = Inr e"
| "add_visitors_calls (n # ns) e =
     (case add_visitors n e of
        Inl err \<Rightarrow> Inl err
      | Inr (_, e') \<Rightarrow> add_visitors_calls ns e')"

text \<open>The attribute \<^verbatim>\<open>visitor_count\<close> of an event object, when it has one.\<close>

definition visitors :: "zoo_event \<Rightarrow> int option" where
  "visitors e = (case e_class e of TourEvent _ vc \<Rightarrow> Some vc | _ \<Rightarrow> None)"

section \<open>Logging and output\<close>

text \<open>
  What the registry does besides changing its own state: a record written to the module's
  logger, a line printed by \<^verbatim>\<open>Animal.eat\<close>, and the pause \<^verbatim>\<open>asyncio.sleep(0.5)\<close> of the
  simulation. Every operation below returns the list of its effects in the order the
  code produces them. A log message is the f-string of one \<^verbatim>\<open>logger\<close> call of zoo.py,
  with the values it interpolates:
  \<^item> \<open>Animal_already_present\<close> line 67, \<open>Animal_added\<close> line 71;
  \<^item> \<open>Staff_already_present\<close> line 85, \<open>Staff_added\<close> line 89;
  \<^item> \<open>Event_overlaps\<close> lines 101 to 104 (new event's name, existing event's name, start
    and end), \<open>Event_scheduled\<close> line 108;
  \<^item> \<open>Unknown_event_type\<close> line 184, \<open>Medical_check\<close> line 191;
  \<^item> \<open>Event_load_error\<close> line 278, \<open>Data_loaded\<close> line 280;
  \<^item> \<open>Day_started\<close> line 291, \<open>Event_started\<close> line 301, \<open>Event_finished\<close> line 311,
    \<open>Day_finished\<close> line 313.
\<close>

datatype level = INFO | WARNING | ERROR

datatype message =
    Animal_already_present string
  | Animal_added string string
  | Staff_already_present string
  | Staff_added string string
  | Event_overlaps string string datetime datetime
  | Event_scheduled string datetime
  | Unknown_event_type string
  | Medical_check string
  | Event_load_error error
  | Data_loaded
  | Day_started date
  | Event_started string
  | Event_finished string
  | Day_finished date

datatype effect = Log level message | Print string | Sleep

text \<open>\<^verbatim>\<open>Animal.eat(food)\<close> prints one line.\<close>

definition eat :: "animal \<Rightarrow> string \<Rightarrow> effect" where
  "eat a food = Print (a_name a @ '' the '' @ a_species a @ '' is eating '' @ food @ ''.'')"

section \<open>Strings\<close>

text \<open>
  A Python \<^verbatim>\<open>str\<close> is modelled by its UTF-8 bytes. The code only concatenates and joins
  strings, so nothing depends on the difference between bytes and code points.
\<close>

definition digit_char :: "nat \<Rightarrow> char" where
  "digit_char n = ''0123456789'' ! (n mod 10)"

text \<open>\<^verbatim>\<open>str(n)\<close> of a non-negative integer, as the f-strings of the report format a length.\<close>

fun show_nat :: "nat \<Rightarrow> string" where
  "show_nat n = (if n < 10 then [digit_char n] else show_nat (n div 10) @ [digit_char n])"

declare show_nat.simps [simp del]

text \<open>\<^verbatim>\<open>sep.join(xs)\<close>.\<close>

fun join :: "string \<Rightarrow> string list \<Rightarrow> string" where
  "join sep [] = []"
| "join sep [x] = x"
| "join sep (x # y # ys) = x @ sep @ join sep (y # ys)"

text \<open>\<^verbatim>\<open>strftime('%H:%M')\<close>: hour and minute of the day, two digits each.\<close>

definition pad2 :: "nat \<Rightarrow> string" where
  "pad2 n = (if n < 10 then ''0'' @ show_nat n else show_nat n)"

definition strftime_HM :: "datetime \<Rightarrow> string" where
  "strftime_HM t =
     (let us = nat (t mod usec_per_day)
      in pad2 (us div 3600000000) @ '':'' @ pad2 ((us div 60000000) mod 60))"

section \<open>The registry (zoo.py)\<close>

text \<open>
  The attributes of a \<^verbatim>\<open>Zoo\<close>. The dictionary \<^verbatim>\<open>_event_subscriptions\<close> is created with
  the three keys \<^verbatim>\<open>feeding\<close>, \<^verbatim>\<open>medical_check\<close> and \<^verbatim>\<open>enrichment\<close> and no code adds or
  removes a key, so it is three fields. Each holds a Python \<^verbatim>\<open>set\<close> of animals, kept here
  as a list without repeated identities, in insertion order; Python fixes no iteration
  order for a set, and the theorems below speak of the elements only.
\<close>

record zoo =
  z_name :: string
  z_animals :: "animal list"
  z_staff :: "staff list"
  z_events :: "zoo_event list"
  subs_feeding :: "animal list"
  subs_medical_check :: "animal list"
  subs_enrichment :: "animal list"

text \<open>\<^verbatim>\<open>Zoo.__init__\<close> with \<^verbatim>\<open>_setup_default_event_subscriptions\<close>.\<close>

definition Zoo_init :: "string \<Rightarrow> zoo" where
  "Zoo_init name =
     \<lparr>z_name = name, z_animals = [], z_staff = [], z_events = [],
      subs_feeding = [], subs_medical_check = [], subs_enrichment = []\<rparr>"

text \<open>\<^verbatim>\<open>self._event_subscriptions.get(key)\<close>: \<open>None\<close> for a key the dictionary lacks.\<close>

definition event_subscriptions :: "zoo \<Rightarrow> string \<Rightarrow> animal list option" where
  "event_subscriptions z key =
     (if key = ''feeding'' then Some (subs_feeding z)
      else if key = ''medical_check'' then Some (subs_medical_check z)
      else if key = ''enrichment'' then Some (subs_enrichment z)
      else None)"

text \<open>\<^verbatim>\<open>animal in animals\<close>, by identity.\<close>

definition animal_in :: "animal \<Rightarrow> animal list \<Rightarrow> bool" where
  "animal_in a xs = (a_ref a \<in> set (map a_ref xs))"

definition staff_in :: "staff \<Rightarrow> staff list \<Rightarrow> bool" where
  "staff_in s xs = (s_ref s \<in> set (map s_ref xs))"

text \<open>\<^verbatim>\<open>set.add(animal)\<close>.\<close>

definition set_add :: "animal \<Rightarrow> animal list \<Rightarrow> animal list" where
  "set_add a xs = (if animal_in a xs then xs else xs @ [a])"

definition add_animal :: "animal \<Rightarrow> zoo \<Rightarrow> zoo \<times> effect list" where
  "add_animal a z =
     (if animal_in a (z_animals z)
      then (z, [Log WARNING (Animal_already_present (a_name a))])
      else (z\<lparr>z_animals := z_animals z @ [a],
              subs_feeding := set_add a (subs_feeding z),
              subs_medical_check := set_add a (subs_medical_check z)\<rparr>,
            [Log INFO (Animal_added (a_name a) (a_species a))]))"

definition add_staff :: "staff \<Rightarrow> zoo \<Rightarrow> zoo \<times> effect list" where
  "add_staff s z =
     (if staff_in s (z_staff z)
      then (z, [Log WARNING (Staff_already_present (s_name s))])
      else (z\<lparr>z_staff := z_staff z @ [s]\<rparr>,
            [Log INFO (Staff_added (s_name s) (staff_class_name s))]))"

text \<open>A sequence of \<^verbatim>\<open>add_animal\<close> calls, the state threaded through.\<close>

fun add_animals :: "animal list \<Rightarrow> zoo \<Rightarrow> zoo" where
  "add_animals [] z = z"
| "add_animals (a # as) z = add_animals as (fst (add_animal a z))"

text \<open>\<^verbatim>\<open>Zoo._events_overlap\<close>.\<close>

definition events_overlap :: "zoo_event \<Rightarrow> zoo_event \<Rightarrow> bool" where
  "events_overlap event1 event2 =
     (start_time event1 < end_time event2 \<and> end_time event1 > start_time event2)"

text \<open>The warning of \<^verbatim>\<open>schedule_event\<close> (lines 101 to 104), and its loop over the
  existing events, left by \<^verbatim>\<open>break\<close> after the first warning.\<close>

definition overlap_warning :: "zoo_event \<Rightarrow> zoo_event \<Rightarrow> effect" where
  "overlap_warning event existing =
     Log WARNING (Event_overlaps (e_name event) (e_name existing)
                    (start_time existing) (end_time existing))"

fun overlap_scan :: "zoo_event list \<Rightarrow> zoo_event \<Rightarrow> effect list" where
  "overlap_scan [] event = []"
| "overlap_scan (existing # rest) event =
     (if events_overlap existing event then [overlap_warning event existing]
      else overlap_scan rest event)"

definition schedule_event :: "zoo_event \<Rightarrow> zoo \<Rightarrow> zoo \<times> effect list" where
  "schedule_event event z =
     (z\<lparr>z_events := z_events z @ [event]\<rparr>,
      overlap_scan (z_events z) event
        @ [Log INFO (Event_scheduled (e_name event) (start_time event))])"


subsection \<open>The daily report\<close>

text \<open>
  The literal texts of \<^verbatim>\<open>daily_report\<close> and of \<^verbatim>\<open>Zoo.load\<close> are Russian; each constant
  below is the literal's UTF-8 bytes.
\<close>

text \<open>In English: \<^verbatim>\<open>Report of zoo ' (opening of the title line, line 141)\<close>.\<close>

definition txt_report_of :: string where
  "txt_report_of =
    [CHR 0xD0, CHR 0x9E, CHR 0xD1, CHR 0x82, CHR 0xD1, CHR 0x87, CHR 0xD0, CHR 0xB5, CHR 0xD1,
     CHR 0x82, CHR 0x20, CHR 0xD0, CHR 0xB7, CHR 0xD0, CHR 0xBE, CHR 0xD0, CHR 0xBE, CHR 0xD0,
     CHR 0xBF, CHR 0xD0, CHR 0xB0, CHR 0xD1, CHR 0x80, CHR 0xD0, CHR 0xBA, CHR 0xD0, CHR 0xB0,
     CHR 0x20, CHR 0x27]"

text \<open>In English: \<^verbatim>\<open>' for  (between the zoo name and the date, line 141)\<close>.\<close>

definition txt_for :: string where
  "txt_for =
    [CHR 0x27, CHR 0x20, CHR 0xD0, CHR 0xB7, CHR 0xD0, CHR 0xB0, CHR 0x20]"

text \<open>In English: \<^verbatim>\<open>Animals in total:  (line 143)\<close>.\<close>

definition txt_total_animals :: string where
  "txt_total_animals =
    [CHR 0xD0, CHR 0x92, CHR 0xD1, CHR 0x81, CHR 0xD0, CHR 0xB5, CHR 0xD0, CHR 0xB3, CHR 0xD0,
     CHR 0xBE, CHR 0x20, CHR 0xD0, CHR 0xB6, CHR 0xD0, CHR 0xB8, CHR 0xD0, CHR 0xB2, CHR 0xD0,
     CHR 0xBE, CHR 0xD1, CHR 0x82, CHR 0xD0, CHR 0xBD, CHR 0xD1, CHR 0x8B, CHR 0xD1, CHR 0x85,
     CHR 0x3A, CHR 0x20]"

text \<open>In English: \<^verbatim>\<open>Staff in total:  (line 144)\<close>.\<close>

definition txt_total_staff :: string where
  "txt_total_staff =
    [CHR 0xD0, CHR 0x92, CHR 0xD1, CHR 0x81, CHR 0xD0, CHR 0xB5, CHR 0xD0, CHR 0xB3, CHR 0xD0,
     CHR 0xBE, CHR 0x20, CHR 0xD1, CHR 0x81, CHR 0xD0, CHR 0xBE, CHR 0xD1, CHR 0x82, CHR 0xD1,
     CHR 0x80, CHR 0xD1, CHR 0x83, CHR 0xD0, CHR 0xB4, CHR 0xD0, CHR 0xBD, CHR 0xD0, CHR 0xB8,
     CHR 0xD0, CHR 0xBA, CHR 0xD0, CHR 0xBE, CHR 0xD0, CHR 0xB2, CHR 0x3A, CHR 0x20]"

text \<open>In English: \<^verbatim>\<open>Events scheduled:  (line 145)\<close>.\<close>

definition txt_events_planned :: string where
  "txt_events_planned =
    [CHR 0xD0, CHR 0x97, CHR 0xD0, CHR 0xB0, CHR 0xD0, CHR 0xBF, CHR 0xD0, CHR 0xBB, CHR 0xD0,
     CHR 0xB0, CHR 0xD0, CHR 0xBD, CHR 0xD0, CHR 0xB8, CHR 0xD1, CHR 0x80, CHR 0xD0, CHR 0xBE,
     CHR 0xD0, CHR 0xB2, CHR 0xD0, CHR 0xB0, CHR 0xD0, CHR 0xBD, CHR 0xD0, CHR 0xBE, CHR 0x20,
     CHR 0xD1, CHR 0x81, CHR 0xD0, CHR 0xBE, CHR 0xD0, CHR 0xB1, CHR 0xD1, CHR 0x8B, CHR 0xD1,
     CHR 0x82, CHR 0xD0, CHR 0xB8, CHR 0xD0, CHR 0xB9, CHR 0x3A, CHR 0x20]"

text \<open>In English: \<^verbatim>\<open>Scheduled events: (line 147)\<close>.\<close>

definition txt_planned_events :: string where
  "txt_planned_events =
    [CHR 0xD0, CHR 0x97, CHR 0xD0, CHR 0xB0, CHR 0xD0, CHR 0xBF, CHR 0xD0, CHR 0xBB, CHR 0xD0,
     CHR 0xB0, CHR 0xD0, CHR 0xBD, CHR 0xD0, CHR 0xB8, CHR 0xD1, CHR 0x80, CHR 0xD0, CHR 0xBE,
     CHR 0xD0, CHR 0xB2, CHR 0xD0, CHR 0xB0, CHR 0xD0, CHR 0xBD, CHR 0xD0, CHR 0xBD, CHR 0xD1,
     CHR 0x8B, CHR 0xD0, CHR 0xB5, CHR 0x20, CHR 0xD1, CHR 0x81, CHR 0xD0, CHR 0xBE, CHR 0xD0,
     CHR 0xB1, CHR 0xD1, CHR 0x8B, CHR 0xD1, CHR 0x82, CHR 0xD0, CHR 0xB8, CHR 0xD1, CHR 0x8F,
     CHR 0x3A]"

text \<open>In English: \<^verbatim>\<open>   Place:  (line 154)\<close>.\<close>

definition txt_place :: string where
  "txt_place =
    [CHR 0x20, CHR 0x20, CHR 0x20, CHR 0xD0, CHR 0x9C, CHR 0xD0, CHR 0xB5, CHR 0xD1, CHR 0x81,
     CHR 0xD1, CHR 0x82, CHR 0xD0, CHR 0xBE, CHR 0x3A, CHR 0x20]"

text \<open>In English: \<^verbatim>\<open>   Participants:  (line 155)\<close>.\<close>

definition txt_participants :: string where
  "txt_participants =
    [CHR 0x20, CHR 0x20, CHR 0x20, CHR 0xD0, CHR 0xA3, CHR 0xD1, CHR 0x87, CHR 0xD0, CHR 0xB0,
     CHR 0xD1, CHR 0x81, CHR 0xD1, CHR 0x82, CHR 0xD0, CHR 0xBD, CHR 0xD0, CHR 0xB8, CHR 0xD0,
     CHR 0xBA, CHR 0xD0, CHR 0xB8, CHR 0x3A, CHR 0x20]"

text \<open>In English: \<^verbatim>\<open>   Animals:  (line 157)\<close>.\<close>

definition txt_animals :: string where
  "txt_animals =
    [CHR 0x20, CHR 0x20, CHR 0x20, CHR 0xD0, CHR 0x96, CHR 0xD0, CHR 0xB8, CHR 0xD0, CHR 0xB2,
     CHR 0xD0, CHR 0xBE, CHR 0xD1, CHR 0x82, CHR 0xD0, CHR 0xBD, CHR 0xD1, CHR 0x8B, CHR 0xD0,
     CHR 0xB5, CHR 0x3A, CHR 0x20]"

text \<open>In English: \<^verbatim>\<open>No events scheduled (line 160)\<close>.\<close>

definition txt_no_events :: string where
  "txt_no_events =
    [CHR 0xD0, CHR 0xA1, CHR 0xD0, CHR 0xBE, CHR 0xD0, CHR 0xB1, CHR 0xD1, CHR 0x8B, CHR 0xD1,
     CHR 0x82, CHR 0xD0, CHR 0xB8, CHR 0xD0, CHR 0xB9, CHR 0x20, CHR 0xD0, CHR 0xBD, CHR 0xD0,
     CHR 0xB5, CHR 0x20, CHR 0xD0, CHR 0xB7, CHR 0xD0, CHR 0xB0, CHR 0xD0, CHR 0xBF, CHR 0xD0,
     CHR 0xBB, CHR 0xD0, CHR 0xB0, CHR 0xD0, CHR 0xBD, CHR 0xD0, CHR 0xB8, CHR 0xD1, CHR 0x80,
     CHR 0xD0, CHR 0xBE, CHR 0xD0, CHR 0xB2, CHR 0xD0, CHR 0xB0, CHR 0xD0, CHR 0xBD, CHR 0xD0,
     CHR 0xBE]"

text \<open>In English: \<^verbatim>\<open>Summary by animal: (line 163)\<close>.\<close>

definition txt_animal_summary :: string where
  "txt_animal_summary =
    [CHR 0xD0, CHR 0xA1, CHR 0xD0, CHR 0xB2, CHR 0xD0, CHR 0xBE, CHR 0xD0, CHR 0xB4, CHR 0xD0,
     CHR 0xBA, CHR 0xD0, CHR 0xB0, CHR 0x20, CHR 0xD0, CHR 0xBF, CHR 0xD0, CHR 0xBE, CHR 0x20,
     CHR 0xD0, CHR 0xB6, CHR 0xD0, CHR 0xB8, CHR 0xD0, CHR 0xB2, CHR 0xD0, CHR 0xBE, CHR 0xD1,
     CHR 0x82, CHR 0xD0, CHR 0xBD, CHR 0xD1, CHR 0x8B, CHR 0xD0, CHR 0xBC, CHR 0x3A]"

text \<open>In English: \<^verbatim>\<open>Loaded zoo (the name given by Zoo.load, line 260)\<close>.\<close>

definition txt_loaded_zoo :: string where
  "txt_loaded_zoo =
    [CHR 0xD0, CHR 0x97, CHR 0xD0, CHR 0xB0, CHR 0xD0, CHR 0xB3, CHR 0xD1, CHR 0x80, CHR 0xD1,
     CHR 0x83, CHR 0xD0, CHR 0xB6, CHR 0xD0, CHR 0xB5, CHR 0xD0, CHR 0xBD, CHR 0xD0, CHR 0xBD,
     CHR 0xD1, CHR 0x8B, CHR 0xD0, CHR 0xB9, CHR 0x20, CHR 0xD0, CHR 0xB7, CHR 0xD0, CHR 0xBE,
     CHR 0xD0, CHR 0xBE, CHR 0xD0, CHR 0xBF, CHR 0xD0, CHR 0xB0, CHR 0xD1, CHR 0x80, CHR 0xD0,
     CHR 0xBA]"

text \<open>\<^verbatim>\<open>"=" * 50\<close> and \<^verbatim>\<open>"-" * 30\<close>.\<close>

definition rule50 :: string where
  "rule50 = replicate 50 CHR ''=''"

definition rule30 :: string where
  "rule30 = replicate 30 CHR ''-''"

text \<open>The lines one event adds to the report (zoo.py, lines 153 to 158).\<close>

definition event_lines :: "zoo_event \<Rightarrow> string list" where
  "event_lines event =
     [strftime_HM (start_time event) @ '' - '' @ e_name event,
      txt_place @ location event,
      txt_participants @ join '', '' (map s_name (e_staff event))]
     @ (if e_animals event \<noteq> [] then [txt_animals @ join '', '' (map a_name (e_animals event))]
        else [])
     @ ['''']"

text \<open>
  The tally \<^verbatim>\<open>animal_types\<close>: a dictionary from class name to count, which keeps its keys
  in the order they were first inserted. \<open>dict_incr\<close> is
  \<^verbatim>\<open>d[k] = d.get(k, 0) + 1\<close>.
\<close>

fun dict_incr :: "string \<Rightarrow> (string \<times> nat) list \<Rightarrow> (string \<times> nat) list" where
  "dict_incr k [] = [(k, 1)]"
| "dict_incr k ((k', c) # rest) =
     (if k' = k then (k', c + 1) # rest else (k', c) # dict_incr k rest)"

fun animal_types :: "animal list \<Rightarrow> (string \<times> nat) list \<Rightarrow> (string \<times> nat) list" where
  "animal_types [] d = d"
| "animal_types (a # as) d = animal_types as (dict_incr (animal_class_name a) d)"

text \<open>The last loop of \<^verbatim>\<open>daily_report\<close>: one line per entry of the tally.\<close>

definition tally_lines :: "zoo \<Rightarrow> string list" where
  "tally_lines z =
     map (\<lambda>(animal_type, count'). animal_type @ '': '' @ show_nat count')
       (animal_types (z_animals z) [])"

text \<open>
  \<^verbatim>\<open>Zoo.daily_report\<close>. \<open>today\<close> is the value of \<^verbatim>\<open>date.today()\<close>, used when no date is
  given (a date is never falsy); \<open>str_date\<close> is Python's \<^verbatim>\<open>str\<close> of a date, a function of
  the standard library that is not modelled. \<open>report_lines\<close> is the list \<^verbatim>\<open>report\<close>
  before it is joined.
\<close>

definition report_lines :: "date \<Rightarrow> (date \<Rightarrow> string) \<Rightarrow> zoo \<Rightarrow> date option \<Rightarrow> string list" where
  "report_lines today str_date z report_date =
     (let report_date = (case report_date of None \<Rightarrow> today | Some d \<Rightarrow> d);
          daily_events = sort_key start_time
            (filter (\<lambda>e. date_of (start_time e) = report_date) (z_events z))
      in [txt_report_of @ z_name z @ txt_for @ str_date report_date,
          rule50,
          txt_total_animals @ show_nat (length (z_animals z)),
          txt_total_staff @ show_nat (length (z_staff z)),
          txt_events_planned @ show_nat (length daily_events),
          '''',
          txt_planned_events,
          rule30]
         @ (if daily_events \<noteq> [] then concat (map event_lines daily_events)
            else [txt_no_events])
         @ ['''', txt_animal_summary, rule30]
         @ tally_lines z)"

definition daily_report :: "date \<Rightarrow> (date \<Rightarrow> string) \<Rightarrow> zoo \<Rightarrow> date option \<Rightarrow> string" where
  "daily_report today str_date z report_date =
     join [CHR 0x0A] (report_lines today str_date z report_date)"

subsection \<open>Notification and the simulation of a day\<close>

text \<open>The loop of \<^verbatim>\<open>notify_animals\<close> over the subscribed animals; \<open>food\<close> is the keyword
  argument \<^verbatim>\<open>food\<close>, \<open>None\<close> when it is not passed.\<close>

fun notify_each :: "string \<Rightarrow> string option \<Rightarrow> animal list \<Rightarrow> effect list" where
  "notify_each kind food [] = []"
| "notify_each kind food (a # as) =
     (if kind = ''feeding'' \<and> food \<noteq> None
      then (case food of Some f \<Rightarrow> [eat a f] | None \<Rightarrow> [])
      else if kind = ''medical_check'' then [Log INFO (Medical_check (a_name a))]
      else [])
     @ notify_each kind food as"

definition notify_animals :: "zoo \<Rightarrow> string \<Rightarrow> string option \<Rightarrow> effect list" where
  "notify_animals z kind food =
     (case event_subscriptions z kind of
        None \<Rightarrow> [Log WARNING (Unknown_event_type kind)]
      | Some subscribed \<Rightarrow> notify_each kind food subscribed)"

text \<open>The body of the loop of \<^verbatim>\<open>run_day\<close> for one event, and the loop.\<close>

definition process_event :: "zoo \<Rightarrow> zoo_event \<Rightarrow> effect list" where
  "process_event z event =
     [Log INFO (Event_started (e_name event))]
     @ (case e_class event of
          FeedingEvent food \<Rightarrow> notify_animals z ''feeding'' (Some food)
        | MedicalCheckEvent \<Rightarrow> notify_animals z ''medical_check'' None
        | _ \<Rightarrow> [])
     @ [Sleep, Log INFO (Event_finished (e_name event))]"





section \<open>Persistence (storage.py)\<close>

text \<open>
  The persisted document is a dictionary of dictionaries. Each dictionary is a record
  with one field per key the code reads or writes: \<open>None\<close> when the key is absent,
  otherwise a value of the type \<^verbatim>\<open>save\<close> writes under that key. \<open>item\<close> is the
  subscription \<^verbatim>\<open>data[key]\<close>, which raises \<^verbatim>\<open>KeyError\<close> on an absent key. A date or a
  datetime is stored as its ISO text and parsed back by \<^verbatim>\<open>fromisoformat\<close>, a duration as
  its seconds and rebuilt by \<^verbatim>\<open>timedelta(seconds=...)\<close>; the fields hold the date, the
  datetime and the duration themselves. Writing the document to a file and reading it
  back (\<^verbatim>\<open>json\<close>, \<^verbatim>\<open>pickle\<close>, \<^verbatim>\<open>yaml\<close>) is not modelled: \<^verbatim>\<open>Zoo.load\<close> starts from the
  document that \<^verbatim>\<open>ZooStorage.load\<close> returns.
\<close>

record animal_data =
  ad_type :: "string option"
  ad_name :: "string option"
  ad_age :: "int option"
  ad_species :: "string option"
  ad_wing_span :: "real option"
  ad_can_fly :: "bool option"
  ad_is_domestic :: "bool option"
  ad_fur_type :: "string option"
  ad_is_venomous :: "bool option"

record staff_data =
  sd_type :: "string option"
  sd_name :: "string option"
  sd_staff_id :: "int option"
  sd_hire_date :: "date option"

record event_data =
  ed_type :: "string option"
  ed_name :: "string option"
  ed_description :: "string option"
  ed_start_time :: "datetime option"
  ed_duration_seconds :: "timedelta option"
  ed_location :: "string option"
  ed_staff_ids :: "int list option"
  ed_animal_names :: "string list option"
  ed_food_type :: "string option"
  ed_max_visitors :: "int option"
  ed_visitor_count :: "int option"
  ed_event_type :: "string option"

record zoo_document =
  schema_version :: "string option"
  doc_animals :: "animal_data list option"
  doc_staff :: "staff_data list option"
  doc_events :: "event_data list option"
  last_updated :: "datetime option"

definition item :: "string \<Rightarrow> 'a option \<Rightarrow> error + 'a" where
  "item key v = (case v of None \<Rightarrow> Inl (KeyError key) | Some x \<Rightarrow> Inr x)"

text \<open>Sequencing of steps that may raise: the first error ends the computation.\<close>

definition and_then :: "error + 'a \<Rightarrow> ('a \<Rightarrow> error + 'b) \<Rightarrow> error + 'b" where
  "and_then r f = (case r of Inl e \<Rightarrow> Inl e | Inr x \<Rightarrow> f x)"

subsection \<open>Animals\<close>

definition serialize_animal :: "animal \<Rightarrow> animal_data" where
  "serialize_animal a =
     (let data = \<lparr>ad_type = Some (animal_class_name a), ad_name = Some (a_name a),
                  ad_age = Some (a_age a), ad_species = Some (a_species a),
                  ad_wing_span = None, ad_can_fly = None, ad_is_domestic = None,
                  ad_fur_type = None, ad_is_venomous = None\<rparr>
      in case a_body a of
           Bird ws cf \<Rightarrow> data\<lparr>ad_wing_span := Some ws, ad_can_fly := Some cf\<rparr>
         | Mammal domestic fur \<Rightarrow> data\<lparr>ad_is_domestic := Some domestic, ad_fur_type := Some fur\<rparr>
         | Reptile ven \<Rightarrow> data\<lparr>ad_is_venomous := Some ven\<rparr>)"

text \<open>
  \<^verbatim>\<open>_deserialize_animal\<close>; \<open>r\<close> is the identity of the object it creates. The lookup
  \<^verbatim>\<open>cls_map[data["type"]]\<close> raises \<^verbatim>\<open>KeyError\<close> for a name that is not a key of the table,
  so the final \<^verbatim>\<open>raise ValueError\<close> of the source is never reached.
\<close>

definition deserialize_animal :: "nat \<Rightarrow> animal_data \<Rightarrow> error + animal" where
  "deserialize_animal r data =
     and_then (item ''type'' (ad_type data)) (\<lambda>cls.
       if cls = ''Bird'' then
         and_then (item ''name'' (ad_name data)) (\<lambda>name.
         and_then (item ''age'' (ad_age data)) (\<lambda>age.
         and_then (item ''wing_span'' (ad_wing_span data)) (\<lambda>ws.
         and_then (item ''can_fly'' (ad_can_fly data)) (\<lambda>cf.
           Inr (new_Bird r name age ws cf)))))
       else if cls = ''Mammal'' then
         and_then (item ''name'' (ad_name data)) (\<lambda>name.
         and_then (item ''age'' (ad_age data)) (\<lambda>age.
         and_then (item ''species'' (ad_species data)) (\<lambda>species.
         and_then (item ''is_domestic'' (ad_is_domestic data)) (\<lambda>domestic.
         and_then (item ''fur_type'' (ad_fur_type data)) (\<lambda>fur.
           Inr (new_Mammal r name age species domestic fur))))))
       else if cls = ''Reptile'' then
         and_then (item ''name'' (ad_name data)) (\<lambda>name.
         and_then (item ''age'' (ad_age data)) (\<lambda>age.
         and_then (item ''is_venomous'' (ad_is_venomous data)) (\<lambda>ven.
           Inr (new_Reptile r name age ven))))
       else Inl (KeyError cls))"

subsection \<open>Staff\<close>

definition serialize_staff :: "staff \<Rightarrow> staff_data" where
  "serialize_staff s =
     \<lparr>sd_type = Some (staff_class_name s), sd_name = Some (s_name s),
      sd_staff_id = Some (s_staff_id s), sd_hire_date = Some (s_hire_date s)\<rparr>"

definition staff_cls_map :: "string \<Rightarrow> staff_class option" where
  "staff_cls_map name =
     (if name = ''ZooKeeper'' then Some ZooKeeper
      else if name = ''Veterinarian'' then Some Veterinarian
      else if name = ''Guide'' then Some Guide
      else None)"

text \<open>\<^verbatim>\<open>_deserialize_staff\<close>: the constructor sets \<^verbatim>\<open>hire_date\<close> to today and the next
  statement overwrites it with the stored date.\<close>

definition deserialize_staff :: "nat \<Rightarrow> staff_data \<Rightarrow> error + staff" where
  "deserialize_staff r data =
     and_then (item ''type'' (sd_type data)) (\<lambda>tag.
     and_then (item tag (staff_cls_map tag)) (\<lambda>cls.
     and_then (item ''hire_date'' (sd_hire_date data)) (\<lambda>hire_date.
     and_then (item ''name'' (sd_name data)) (\<lambda>name.
     and_then (item ''staff_id'' (sd_staff_id data)) (\<lambda>staff_id.
       Inr \<lparr>s_ref = r, s_class = cls, s_name = name, s_staff_id = staff_id,
            s_hire_date = hire_date\<rparr>)))))"

subsection \<open>Events\<close>

definition serialize_event :: "zoo_event \<Rightarrow> event_data" where
  "serialize_event event =
     (let data = \<lparr>ed_type = Some (event_class_name event), ed_name = Some (e_name event),
                  ed_description = Some (description event),
                  ed_start_time = Some (start_time event),
                  ed_duration_seconds = Some (duration event),
                  ed_location = Some (location event),
                  ed_staff_ids = Some (map s_staff_id (e_staff event)),
                  ed_animal_names = Some (map a_name (e_animals event)),
                  ed_food_type = None, ed_max_visitors = None, ed_visitor_count = None,
                  ed_event_type = None\<rparr>
      in case e_class event of
           FeedingEvent food \<Rightarrow> data\<lparr>ed_food_type := Some food\<rparr>
         | TourEvent maxv vc \<Rightarrow> data\<lparr>ed_max_visitors := Some maxv, ed_visitor_count := Some vc\<rparr>
         | _ \<Rightarrow> data)"

text \<open>\<^verbatim>\<open>EventType[name]\<close>: the member of the enumeration with that name.\<close>

definition EventType_named :: "string \<Rightarrow> EventType option" where
  "EventType_named name =
     (if name = ''FEEDING'' then Some FEEDING
      else if name = ''MEDICAL_CHECK'' then Some MEDICAL_CHECK
      else if name = ''TOUR'' then Some TOUR
      else if name = ''SHOW'' then Some SHOW
      else if name = ''CLEANING'' then Some CLEANING
      else if name = ''ENRICHMENT'' then Some ENRICHMENT
      else None)"

text \<open>
  The two comprehensions of \<^verbatim>\<open>_deserialize_event\<close> that resolve references. The key is
  read inside the condition, once per element of the registry's list, so an absent key
  raises only when that list is not empty.
\<close>

definition find_staff :: "zoo \<Rightarrow> event_data \<Rightarrow> error + staff list" where
  "find_staff z data =
     (if z_staff z = [] then Inr []
      else and_then (item ''staff_ids'' (ed_staff_ids data)) (\<lambda>ids.
             Inr (filter (\<lambda>s. s_staff_id s \<in> set ids) (z_staff z))))"

definition find_animals :: "zoo \<Rightarrow> event_data \<Rightarrow> error + animal list" where
  "find_animals z data =
     (if z_animals z = [] then Inr []
      else and_then (item ''animal_names'' (ed_animal_names data)) (\<lambda>names.
             Inr (filter (\<lambda>a. a_name a \<in> set names) (z_animals z))))"

text \<open>\<^verbatim>\<open>data.get(key, default)\<close>.\<close>

definition get_or :: "'a option \<Rightarrow> 'a \<Rightarrow> 'a" where
  "get_or v d = (case v of None \<Rightarrow> d | Some x \<Rightarrow> x)"

definition deserialize_event :: "event_data \<Rightarrow> zoo \<Rightarrow> error + zoo_event" where
  "deserialize_event data z =
     and_then (item ''type'' (ed_type data)) (\<lambda>tag.
     and_then (item ''start_time'' (ed_start_time data)) (\<lambda>start.
     and_then (item ''duration_seconds'' (ed_duration_seconds data)) (\<lambda>dur.
     and_then (find_staff z data) (\<lambda>stf.
     and_then (find_animals z data) (\<lambda>anims.
       if tag = ''FeedingEvent'' then
         and_then (item ''name'' (ed_name data)) (\<lambda>name.
         and_then (item ''location'' (ed_location data)) (\<lambda>loc.
         and_then (item ''food_type'' (ed_food_type data)) (\<lambda>food.
         and_then (item ''description'' (ed_description data)) (\<lambda>descr.
           Inr (new_FeedingEvent name start loc food anims stf dur descr)))))
       else if tag = ''MedicalCheckEvent'' then
         and_then (item ''name'' (ed_name data)) (\<lambda>name.
         and_then (item ''location'' (ed_location data)) (\<lambda>loc.
         and_then (item ''description'' (ed_description data)) (\<lambda>descr.
           Inr (new_MedicalCheckEvent name start loc anims stf dur descr))))
       else if tag = ''TourEvent'' then
         and_then (item ''name'' (ed_name data)) (\<lambda>name.
         and_then (item ''location'' (ed_location data)) (\<lambda>loc.
         and_then (item ''description'' (ed_description data)) (\<lambda>descr.
           Inr ((new_TourEvent name start loc stf dur descr (get_or (ed_max_visitors data) 20))
                  \<lparr>e_class := TourEvent (get_or (ed_max_visitors data) 20)
                                 (get_or (ed_visitor_count data) 0)\<rparr>))))
       else
         and_then (item ''event_type'' (ed_event_type data)) (\<lambda>ty_name.
         and_then (item ty_name (EventType_named ty_name)) (\<lambda>ty.
         and_then (item ''name'' (ed_name data)) (\<lambda>name.
         and_then (item ''description'' (ed_description data)) (\<lambda>descr.
         and_then (item ''location'' (ed_location data)) (\<lambda>loc.
           Inr (new_ZooEvent ty name descr start dur loc stf anims)))))))))))"

subsection \<open>Saving and loading\<close>

text \<open>
  \<^verbatim>\<open>ZooStorage.save\<close>: the document it builds, written when the format is one of the
  three supported ones; \<open>now\<close> is the clock read for \<^verbatim>\<open>last_updated\<close>.
\<close>

definition save :: "datetime \<Rightarrow> zoo \<Rightarrow> string \<Rightarrow> error + zoo_document" where
  "save now z fmt =
     (let data = \<lparr>schema_version = Some ''1.0'',
                  doc_animals = Some (map serialize_animal (z_animals z)),
                  doc_staff = Some (map serialize_staff (z_staff z)),
                  doc_events = Some (map serialize_event (z_events z)),
                  last_updated = Some now\<rparr>
      in if fmt = ''json'' \<or> fmt = ''pickle'' \<or> fmt = ''yaml'' then Inr data
         else Inl (ValueError (''Unsupported format: '' @ fmt)))"

text \<open>
  The three loops of \<^verbatim>\<open>Zoo.load\<close>. Each deserialised staff member or animal is a new
  object: \<open>r\<close> is the first identity not in use, and every object created takes the next
  one. An error raised for a staff member or an animal leaves \<^verbatim>\<open>Zoo.load\<close>; an error
  raised for an event is caught, logged, and the loop goes on.
\<close>

fun load_staff :: "staff_data list \<Rightarrow> nat \<Rightarrow> zoo \<Rightarrow> error + (nat \<times> zoo \<times> effect list)" where
  "load_staff [] r z = Inr (r, z, [])"
| "load_staff (staff_data # rest) r z =
     and_then (deserialize_staff r staff_data) (\<lambda>s.
       case add_staff s z of (z', out) \<Rightarrow>
         and_then (load_staff rest (Suc r) z') (\<lambda>(r', z'', out').
           Inr (r', z'', out @ out')))"

fun load_animals :: "animal_data list \<Rightarrow> nat \<Rightarrow> zoo \<Rightarrow> error + (nat \<times> zoo \<times> effect list)" where
  "load_animals [] r z = Inr (r, z, [])"
| "load_animals (animal_data # rest) r z =
     and_then (deserialize_animal r animal_data) (\<lambda>a.
       case add_animal a z of (z', out) \<Rightarrow>
         and_then (load_animals rest (Suc r) z') (\<lambda>(r', z'', out').
           Inr (r', z'', out @ out')))"

fun load_events :: "event_data list \<Rightarrow> zoo \<Rightarrow> zoo \<times> effect list" where
  "load_events [] z = (z, [])"
| "load_events (event_data # rest) z =
     (case deserialize_event event_data z of
        Inl e \<Rightarrow>
          (case load_events rest z of (z', out') \<Rightarrow>
             (z', Log ERROR (Event_load_error e) # out'))
      | Inr event \<Rightarrow>
          (case schedule_event event z of (z', out) \<Rightarrow>
             (case load_events rest z' of (z'', out') \<Rightarrow> (z'', out @ out'))))"

text \<open>\<^verbatim>\<open>Zoo.load\<close>, from the document on; \<open>r\<close> is the first object identity not in use.\<close>

definition Zoo_load :: "nat \<Rightarrow> zoo_document \<Rightarrow> error + (zoo \<times> effect list)" where
  "Zoo_load r data =
     and_then (load_staff (get_or (doc_staff data) []) r (Zoo_init txt_loaded_zoo))
       (\<lambda>(r1, z1, out1).
     and_then (load_animals (get_or (doc_animals data) []) r1 z1)
       (\<lambda>(r2, z2, out2).
          case load_events (get_or (doc_events data) []) z2 of (z3, out3) \<Rightarrow>
            Inr (z3, out1 @ out2 @ out3 @ [Log INFO Data_loaded])))"

section \<open>Sample objects\<close>

text \<open>
  Concrete animals, staff, events and registries on which the theorems below are
  evaluated. Times are microseconds: 36000000000 is 10:00 on day 0, 37800000000 is
  10:30, 3600000000 is one hour.
\<close>

definition ex_bird :: animal where
  "ex_bird = new_Bird 1 ''Kesha'' 2 0.3 True"

definition ex_cat :: animal where
  "ex_cat = new_Mammal 2 ''Barsik'' 3 ''Cat'' True ''short''"

definition ex_keeper :: staff where
  "ex_keeper =
     \<lparr>s_ref = 1, s_class = ZooKeeper, s_name = ''Ivan'', s_staff_id = 1, s_hire_date = 19000\<rparr>"

definition ex_zoo :: zoo where
  "ex_zoo = fst (add_staff ex_keeper (add_animals [ex_bird, ex_cat] (Zoo_init ''Test zoo'')))"

text \<open>A medical check from 10:00 to 11:00 and a feeding from 10:30 to 11:00.\<close>

definition ex_check :: zoo_event where
  "ex_check = new_MedicalCheckEvent ''Check-up'' 36000000000 ''Clinic'' [] [] 3600000000 ''''"

definition ex_feeding :: zoo_event where
  "ex_feeding = new_FeedingEvent ''Lunch'' 37800000000 ''Aviary'' ''seeds'' [] [] 1800000000 ''''"



text \<open>Tours created with \<^verbatim>\<open>max_visitors=20\<close> and with \<^verbatim>\<open>max_visitors=-1\<close>.\<close>

definition ex_tour20 :: zoo_event where
  "ex_tour20 = new_TourEvent ''Tour'' 36000000000 ''Gate'' [] 3600000000 '''' 20"

definition ex_tour_neg :: zoo_event where
  "ex_tour_neg = new_TourEvent ''Tour'' 36000000000 ''Gate'' [] 3600000000 '''' (- 1)"


text \<open>
  A plain \<^verbatim>\<open>ZooEvent\<close> (a parrot show at 14:00 for half an hour) and the sample zoo with
  that show scheduled.
\<close>

definition ex_show :: zoo_event where
  "ex_show =
     new_ZooEvent SHOW ''Parrot show'' ''Daily parrot show'' 50400000000 1800000000 ''Arena'' [] []"

definition ex_show_zoo :: zoo where
  "ex_show_zoo = fst (schedule_event ex_show ex_zoo)"

text \<open>A document as \<^verbatim>\<open>ZooStorage.load\<close> returns it, with the given three lists.\<close>

definition ex_doc :: "animal_data list \<Rightarrow> staff_data list \<Rightarrow> event_data list \<Rightarrow> zoo_document" where
  "ex_doc as ss es =
     \<lparr>schema_version = Some ''1.0'', doc_animals = Some as, doc_staff = Some ss,
      doc_events = Some es, last_updated = Some 0\<rparr>"

text \<open>
  Records with a type tag no class has: the saved bird retagged \<^verbatim>\<open>Dragon\<close>, the saved
  keeper retagged \<^verbatim>\<open>Intern\<close>, the saved show retagged \<^verbatim>\<open>GalaEvent\<close> (as saved, without the
  key \<^verbatim>\<open>event_type\<close>), and the saved show retagged \<^verbatim>\<open>PartyEvent\<close> with the key
  \<^verbatim>\<open>event_type\<close> set to \<^verbatim>\<open>SHOW\<close>.
\<close>

definition ex_dragon_data :: animal_data where
  "ex_dragon_data = (serialize_animal ex_bird)\<lparr>ad_type := Some ''Dragon''\<rparr>"

definition ex_intern_data :: staff_data where
  "ex_intern_data = (serialize_staff ex_keeper)\<lparr>sd_type := Some ''Intern''\<rparr>"

definition ex_gala_data :: event_data where
  "ex_gala_data = (serialize_event ex_show)\<lparr>ed_type := Some ''GalaEvent''\<rparr>"

definition ex_party_data :: event_data where
  "ex_party_data =
     (serialize_event ex_show)\<lparr>ed_type := Some ''PartyEvent'', ed_event_type := Some ''SHOW''\<rparr>"

section \<open>Events: overlap, ongoing, visitors\<close>

lemmas new_event_defs =
  new_FeedingEvent_def new_MedicalCheckEvent_def new_TourEvent_def new_ZooEvent_def

lemmas new_animal_defs = new_Bird_def new_Mammal_def new_Reptile_def







lemma add_visitors_tour:
  "e_class e = TourEvent maxv vc \<Longrightarrow>
   add_visitors n e =
     (if vc + n \<le> maxv then Inr (True, e\<lparr>e_class := TourEvent maxv (vc + n)\<rparr>)
      else Inr (False, e))"
  by (simp add: add_visitors_def)

lemma add_visitors_calls_bounded:
  "e_class e = TourEvent maxv vc \<Longrightarrow> vc \<le> maxv \<Longrightarrow>
   \<exists>e' vc'. add_visitors_calls ns e = Inr e' \<and> e_class e' = TourEvent maxv vc' \<and> vc' \<le> maxv"
proof (induction ns arbitrary: e vc)
  case Nil
  then show ?case by simp
next
  case (Cons n ns)
  show ?case
  proof (cases "vc + n \<le> maxv")
    case True
    let ?e = "e\<lparr>e_class := TourEvent maxv (vc + n)\<rparr>"
    have "add_visitors n e = Inr (True, ?e)"
      using Cons.prems(1) True by (simp add: add_visitors_tour)
    moreover have "e_class ?e = TourEvent maxv (vc + n)" by simp
    ultimately show ?thesis
      using Cons.IH [of ?e "vc + n"] True by simp
  next
    case False
    have "add_visitors n e = Inr (False, e)"
      using Cons.prems(1) False by (simp add: add_visitors_tour)
    then show ?thesis
      using Cons.IH [of e vc] Cons.prems by simp
  qed
qed

text \<open>
  Claim C8, amended. On a \<^verbatim>\<open>TourEvent\<close>, \<^verbatim>\<open>add_visitors(n)\<close> returns true and raises
  \<^verbatim>\<open>visitor_count\<close> by exactly n when \<^verbatim>\<open>visitor_count + n\<close> is at most \<^verbatim>\<open>max_visitors\<close>,
  and otherwise returns false and changes nothing. Hence on a tour created with a
  \<^verbatim>\<open>max_visitors\<close> that is not negative, where \<^verbatim>\<open>visitor_count\<close> starts at 0,
  \<^verbatim>\<open>visitor_count\<close> is at most \<^verbatim>\<open>max_visitors\<close> after any sequence of \<^verbatim>\<open>add_visitors\<close> calls
  with non-negative arguments.
\<close>

theorem add_visitors_capacity:
  "(e_class e = TourEvent maxv vc \<longrightarrow>
      add_visitors n e =
        (if vc + n \<le> maxv then Inr (True, e\<lparr>e_class := TourEvent maxv (vc + n)\<rparr>)
         else Inr (False, e)))
   \<and> (0 \<le> maxv \<and> (\<forall>n \<in> set ns. 0 \<le> n) \<longrightarrow>
        (\<exists>e' vc'. add_visitors_calls ns (new_TourEvent name start loc stf dur descr maxv) = Inr e'
           \<and> visitors e' = Some vc' \<and> vc' \<le> maxv))"
proof (intro conjI impI)
  assume "e_class e = TourEvent maxv vc"
  then show "add_visitors n e =
        (if vc + n \<le> maxv then Inr (True, e\<lparr>e_class := TourEvent maxv (vc + n)\<rparr>)
         else Inr (False, e))"
    by (rule add_visitors_tour)
next
  assume h: "0 \<le> maxv \<and> (\<forall>n \<in> set ns. 0 \<le> n)"
  let ?e = "new_TourEvent name start loc stf dur descr maxv"
  have "e_class ?e = TourEvent maxv 0" by (simp add: new_TourEvent_def)
  with h obtain e' vc' where
    "add_visitors_calls ns ?e = Inr e'" "e_class e' = TourEvent maxv vc'" "vc' \<le> maxv"
    using add_visitors_calls_bounded [of ?e maxv 0 ns] by blast
  then show "\<exists>e' vc'. add_visitors_calls ns ?e = Inr e' \<and> visitors e' = Some vc' \<and> vc' \<le> maxv"
    by (auto simp: visitors_def)
qed

text \<open>A tour for 20: five visitors are admitted; of the groups 15, 10 and 5 the second
  is refused.\<close>

theorem add_visitors_capacity_witness:
  "e_class ex_tour20 = TourEvent 20 0
   \<and> add_visitors 5 ex_tour20 = Inr (True, ex_tour20\<lparr>e_class := TourEvent 20 5\<rparr>)
   \<and> (\<exists>e' vc'. add_visitors_calls [15, 10, 5] ex_tour20 = Inr e'
         \<and> visitors e' = Some vc' \<and> vc' \<le> 20)"
  using add_visitors_capacity [of ex_tour20 20 0 5 "[15, 10, 5]" "''Tour''" 36000000000
      "''Gate''" "[]" 3600000000 "''''"]
  by (simp add: ex_tour20_def new_TourEvent_def)

text \<open>
  The claim as written fails for a tour created with a negative \<^verbatim>\<open>max_visitors\<close>: the
  count starts at 0, above the maximum, and stays there when a call is refused.
\<close>

theorem add_visitors_negative_capacity_counterexample:
  "e_class ex_tour_neg = TourEvent (- 1) 0
   \<and> add_visitors_calls [1] ex_tour_neg = Inr ex_tour_neg
   \<and> \<not> visitor_count (e_class ex_tour_neg) \<le> max_visitors (e_class ex_tour_neg)"
  by (simp add: ex_tour_neg_def new_TourEvent_def add_visitors_def)

section \<open>The registry: adding and scheduling\<close>



lemma filter_ref_absent:
  "\<not> animal_in a xs \<Longrightarrow> filter (\<lambda>x. a_ref x = a_ref a) xs = []"
  by (induction xs) (auto simp: animal_in_def)

lemma animal_in_snoc: "animal_in a (xs @ [a])"
  by (simp add: animal_in_def)

text \<open>
  Claim C5. When the animal object a is already in the animal list, \<^verbatim>\<open>add_animal(a)\<close>
  leaves the whole registry unchanged and logs a warning. When it is not, \<^verbatim>\<open>add_animal\<close>
  appends it; adding it a second time then changes nothing, and the list holds exactly
  one entry for that object.
\<close>

theorem add_animal_once:
  "(animal_in a (z_animals z) \<longrightarrow>
      add_animal a z = (z, [Log WARNING (Animal_already_present (a_name a))]))
   \<and> (\<not> animal_in a (z_animals z) \<longrightarrow>
        z_animals (fst (add_animal a z)) = z_animals z @ [a]
        \<and> snd (add_animal a z) = [Log INFO (Animal_added (a_name a) (a_species a))]
        \<and> fst (add_animal a (fst (add_animal a z))) = fst (add_animal a z)
        \<and> length (filter (\<lambda>x. a_ref x = a_ref a)
             (z_animals (fst (add_animal a (fst (add_animal a z)))))) = 1)"
proof (intro conjI impI)
  assume "animal_in a (z_animals z)"
  then show "add_animal a z = (z, [Log WARNING (Animal_already_present (a_name a))])"
    by (simp add: add_animal_def)
next
  assume new: "\<not> animal_in a (z_animals z)"
  then show app: "z_animals (fst (add_animal a z)) = z_animals z @ [a]"
    by (simp add: add_animal_def)
  from new show "snd (add_animal a z) = [Log INFO (Animal_added (a_name a) (a_species a))]"
    by (simp add: add_animal_def)
  have "animal_in a (z_animals (fst (add_animal a z)))"
    by (simp add: app animal_in_snoc)
  then show again: "fst (add_animal a (fst (add_animal a z))) = fst (add_animal a z)"
    by (simp add: add_animal_def)
  show "length (filter (\<lambda>x. a_ref x = a_ref a)
          (z_animals (fst (add_animal a (fst (add_animal a z)))))) = 1"
    by (simp add: again app filter_ref_absent [OF new])
qed

text \<open>The bird is in the sample zoo and not in an empty one.\<close>

theorem add_animal_once_witness:
  "animal_in ex_bird (z_animals ex_zoo)
   \<and> \<not> animal_in ex_bird (z_animals (Zoo_init ''Test zoo''))
   \<and> add_animal ex_bird ex_zoo = (ex_zoo, [Log WARNING (Animal_already_present ''Kesha'')])
   \<and> z_animals (fst (add_animal ex_bird (Zoo_init ''Test zoo''))) = [ex_bird]
   \<and> z_animals (fst (add_animal ex_bird (fst (add_animal ex_bird (Zoo_init ''Test zoo'')))))
       = [ex_bird]"
  using add_animal_once [of ex_bird ex_zoo] add_animal_once [of ex_bird "Zoo_init ''Test zoo''"]
  by (simp add: ex_zoo_def ex_bird_def ex_cat_def ex_keeper_def new_animal_defs Zoo_init_def
      add_animal_def add_staff_def animal_in_def staff_in_def set_add_def)

lemma add_animal_keeps_subscribed:
  "subs_feeding z = z_animals z \<and> subs_medical_check z = z_animals z \<Longrightarrow>
   subs_feeding (fst (add_animal a z)) = z_animals (fst (add_animal a z))
   \<and> subs_medical_check (fst (add_animal a z)) = z_animals (fst (add_animal a z))"
  by (simp add: add_animal_def set_add_def)

lemma add_animals_keeps_subscribed:
  "subs_feeding z = z_animals z \<and> subs_medical_check z = z_animals z \<Longrightarrow>
   subs_feeding (add_animals as z) = z_animals (add_animals as z)
   \<and> subs_medical_check (add_animals as z) = z_animals (add_animals as z)"
proof (induction as arbitrary: z)
  case Nil
  then show ?case by simp
next
  case (Cons a as)
  from add_animal_keeps_subscribed [OF Cons.prems]
  show ?case using Cons.IH [of "fst (add_animal a z)"] by simp
qed

lemma notify_each_feeding: "notify_each ''feeding'' (Some f) xs = map (\<lambda>a. eat a f) xs"
  by (induction xs) simp_all

text \<open>
  Claim C10. In a zoo built from an empty one by any sequence of \<^verbatim>\<open>add_animal\<close> calls,
  every animal of the animal list is in the \<^verbatim>\<open>feeding\<close> and in the \<^verbatim>\<open>medical_check\<close>
  subscription set. So \<^verbatim>\<open>notify_animals("feeding", food=f)\<close> makes exactly the animals of
  the zoo eat f, and processing a feeding event feeds every animal of the zoo, whatever
  animals the event lists.
\<close>

theorem all_animals_subscribed:
  "z = add_animals as (Zoo_init name) \<Longrightarrow>
   (\<forall>a \<in> set (z_animals z).
       a \<in> set (subs_feeding z) \<and> animal_in a (subs_feeding z)
       \<and> a \<in> set (subs_medical_check z) \<and> animal_in a (subs_medical_check z))
   \<and> set (notify_animals z ''feeding'' (Some f)) = (\<lambda>a. eat a f) ` set (z_animals z)
   \<and> (e_class e = FeedingEvent f \<longrightarrow>
        (\<forall>a \<in> set (z_animals z). eat a f \<in> set (process_event z e)))"
proof -
  assume z: "z = add_animals as (Zoo_init name)"
  have "subs_feeding (Zoo_init name) = z_animals (Zoo_init name)
        \<and> subs_medical_check (Zoo_init name) = z_animals (Zoo_init name)"
    by (simp add: Zoo_init_def)
  from add_animals_keeps_subscribed [OF this, of as] z
  have inv: "subs_feeding z = z_animals z" "subs_medical_check z = z_animals z"
    by simp_all
  have n: "notify_animals z ''feeding'' (Some f) = map (\<lambda>a. eat a f) (z_animals z)"
    by (simp add: notify_animals_def event_subscriptions_def inv notify_each_feeding)
  show ?thesis
    by (auto simp: inv n animal_in_def process_event_def)
qed

text \<open>A zoo of a bird and a cat; the sample feeding lists no animal, and both eat.\<close>

theorem all_animals_subscribed_witness:
  "z_animals (add_animals [ex_bird, ex_cat] (Zoo_init ''Test zoo'')) = [ex_bird, ex_cat]
   \<and> set (notify_animals (add_animals [ex_bird, ex_cat] (Zoo_init ''Test zoo'')) ''feeding''
            (Some ''seeds''))
       = {Print ''Kesha the Bird is eating seeds.'', Print ''Barsik the Cat is eating seeds.''}
   \<and> e_class ex_feeding = FeedingEvent ''seeds'' \<and> e_animals ex_feeding = []
   \<and> Print ''Barsik the Cat is eating seeds.''
       \<in> set (process_event (add_animals [ex_bird, ex_cat] (Zoo_init ''Test zoo'')) ex_feeding)"
  using all_animals_subscribed [of "add_animals [ex_bird, ex_cat] (Zoo_init ''Test zoo'')"
      "[ex_bird, ex_cat]" "''Test zoo''" "''seeds''" ex_feeding]
  by (simp add: ex_bird_def ex_cat_def new_animal_defs Zoo_init_def add_animal_def
      animal_in_def set_add_def eat_def ex_feeding_def new_event_defs)

section \<open>The simulation of a day\<close>












section \<open>The daily report\<close>

lemma join_Cons: "ys \<noteq> [] \<Longrightarrow> join sep (l # ys) = l @ sep @ join sep ys"
  by (cases ys) simp_all

lemma join_append:
  "xs \<noteq> [] \<Longrightarrow> ys \<noteq> [] \<Longrightarrow> join sep (xs @ ys) = join sep xs @ sep @ join sep ys"
proof (induction sep xs rule: join.induct)
  case (1 sep)
  then show ?case by simp
next
  case (2 sep x)
  then show ?case by (simp add: join_Cons)
next
  case (3 sep x y ys')
  then show ?case by simp
qed

lemma line_in_join:
  assumes "xs \<noteq> []" "ys \<noteq> []"
  shows "sublist (sep @ l @ sep) (join sep (xs @ l # ys))"
proof -
  have "join sep (xs @ l # ys) = join sep xs @ (sep @ l @ sep) @ join sep ys"
    using assms by (simp add: join_append join_Cons)
  then show ?thesis
    unfolding sublist_def by blast
qed

lemma show_nat_0: "show_nat 0 = ''0''"
  by (simp add: show_nat.simps digit_char_def)

lemma no_daily_events:
  "\<forall>e \<in> set (z_events z). date_of (start_time e) \<noteq> d \<Longrightarrow>
   filter (\<lambda>e. date_of (start_time e) = d) (z_events z) = []"
  by (simp add: filter_empty_conv)

lemma report_lines_no_events:
  assumes "\<forall>e \<in> set (z_events z). date_of (start_time e) \<noteq> d"
  shows "report_lines today str_date z (Some d) =
     [txt_report_of @ z_name z @ txt_for @ str_date d,
      rule50,
      txt_total_animals @ show_nat (length (z_animals z)),
      txt_total_staff @ show_nat (length (z_staff z)),
      txt_events_planned @ ''0'',
      '''',
      txt_planned_events,
      rule30,
      txt_no_events,
      '''',
      txt_animal_summary,
      rule30] @ tally_lines z"
  by (simp add: report_lines_def no_daily_events [OF assms] show_nat_0)

text \<open>
  Claim C7. For a report date on which no scheduled event starts, \<^verbatim>\<open>daily_report\<close>
  returns the title, a rule, the line of the animal count with the exact length of the
  animal list, the line of the staff count with the exact length of the staff list, the
  line of the event count with 0, the heading of the events, the line that says that no
  events are scheduled, and the summary by animal type, joined by newlines. Each of the
  four lines named in the claim stands in the returned string between two newlines.
\<close>

theorem daily_report_no_events:
  "\<forall>e \<in> set (z_events z). date_of (start_time e) \<noteq> d \<Longrightarrow>
   daily_report today str_date z (Some d) =
     join [CHR 0x0A]
       ([txt_report_of @ z_name z @ txt_for @ str_date d,
         rule50,
         txt_total_animals @ show_nat (length (z_animals z)),
         txt_total_staff @ show_nat (length (z_staff z)),
         txt_events_planned @ ''0'',
         '''',
         txt_planned_events,
         rule30,
         txt_no_events,
         '''',
         txt_animal_summary,
         rule30] @ tally_lines z)
   \<and> sublist ([CHR 0x0A] @ txt_no_events @ [CHR 0x0A]) (daily_report today str_date z (Some d))
   \<and> sublist ([CHR 0x0A] @ (txt_total_animals @ show_nat (length (z_animals z))) @ [CHR 0x0A])
        (daily_report today str_date z (Some d))
   \<and> sublist ([CHR 0x0A] @ (txt_total_staff @ show_nat (length (z_staff z))) @ [CHR 0x0A])
        (daily_report today str_date z (Some d))
   \<and> sublist ([CHR 0x0A] @ (txt_events_planned @ ''0'') @ [CHR 0x0A])
        (daily_report today str_date z (Some d))"
proof -
  assume none: "\<forall>e \<in> set (z_events z). date_of (start_time e) \<noteq> d"
  let ?title = "txt_report_of @ z_name z @ txt_for @ str_date d"
  let ?an = "txt_total_animals @ show_nat (length (z_animals z))"
  let ?st = "txt_total_staff @ show_nat (length (z_staff z))"
  let ?ev = "txt_events_planned @ ''0''"
  let ?tail = "['''', txt_animal_summary, rule30] @ tally_lines z"
  let ?r = "daily_report today str_date z (Some d)"
  have lines: "report_lines today str_date z (Some d) =
      [?title, rule50, ?an, ?st, ?ev, '''', txt_planned_events, rule30, txt_no_events] @ ?tail"
    using report_lines_no_events [OF none] by simp
  have r: "?r = join [CHR 0x0A]
      ([?title, rule50, ?an, ?st, ?ev, '''', txt_planned_events, rule30, txt_no_events] @ ?tail)"
    by (simp only: daily_report_def lines)
  have a: "?r = join [CHR 0x0A] ([?title, rule50] @ ?an #
      ([?st, ?ev, '''', txt_planned_events, rule30, txt_no_events] @ ?tail))"
    by (simp only: r append.simps)
  have b: "?r = join [CHR 0x0A] ([?title, rule50, ?an] @ ?st #
      ([?ev, '''', txt_planned_events, rule30, txt_no_events] @ ?tail))"
    by (simp only: r append.simps)
  have c: "?r = join [CHR 0x0A] ([?title, rule50, ?an, ?st] @ ?ev #
      (['''', txt_planned_events, rule30, txt_no_events] @ ?tail))"
    by (simp only: r append.simps)
  have e: "?r = join [CHR 0x0A]
      ([?title, rule50, ?an, ?st, ?ev, '''', txt_planned_events, rule30] @ txt_no_events # ?tail)"
    by (simp only: r append.simps)
  have 1: "sublist ([CHR 0x0A] @ txt_no_events @ [CHR 0x0A]) ?r"
    unfolding e by (rule line_in_join) simp_all
  have 2: "sublist ([CHR 0x0A] @ ?an @ [CHR 0x0A]) ?r"
    unfolding a by (rule line_in_join) simp_all
  have 3: "sublist ([CHR 0x0A] @ ?st @ [CHR 0x0A]) ?r"
    unfolding b by (rule line_in_join) simp_all
  have 4: "sublist ([CHR 0x0A] @ ?ev @ [CHR 0x0A]) ?r"
    unfolding c by (rule line_in_join) simp_all
  from r 1 2 3 4 show ?thesis by simp
qed

text \<open>The sample zoo has two animals and one keeper, and nothing is scheduled on day 1.\<close>

theorem daily_report_no_events_witness:
  "length (z_animals ex_zoo) = 2 \<and> length (z_staff ex_zoo) = 1
   \<and> sublist ([CHR 0x0A] @ txt_no_events @ [CHR 0x0A])
        (daily_report 0 (\<lambda>d. ''day '' @ show_nat (nat d)) ex_zoo (Some 1))
   \<and> sublist ([CHR 0x0A] @ (txt_total_animals @ ''2'') @ [CHR 0x0A])
        (daily_report 0 (\<lambda>d. ''day '' @ show_nat (nat d)) ex_zoo (Some 1))
   \<and> sublist ([CHR 0x0A] @ (txt_total_staff @ ''1'') @ [CHR 0x0A])
        (daily_report 0 (\<lambda>d. ''day '' @ show_nat (nat d)) ex_zoo (Some 1))"
proof -
  have ev: "z_events ex_zoo = []"
    by (simp add: ex_zoo_def add_staff_def add_animal_def Zoo_init_def)
  have an: "length (z_animals ex_zoo) = 2"
    by (simp add: ex_zoo_def add_staff_def add_animal_def Zoo_init_def animal_in_def
        ex_bird_def ex_cat_def new_animal_defs)
  have st: "length (z_staff ex_zoo) = 1"
    by (simp add: ex_zoo_def add_staff_def add_animal_def Zoo_init_def staff_in_def)
  have n: "show_nat 2 = ''2''" "show_nat 1 = ''1''"
    by (simp_all add: show_nat.simps digit_char_def)
  have none: "\<forall>e \<in> set (z_events ex_zoo). date_of (start_time e) \<noteq> 1"
    by (simp add: ev)
  note t = daily_report_no_events [OF none, of 0 "\<lambda>d. ''day '' @ show_nat (nat d)"]
  have s1: "sublist ([CHR 0x0A] @ txt_no_events @ [CHR 0x0A])
        (daily_report 0 (\<lambda>d. ''day '' @ show_nat (nat d)) ex_zoo (Some 1))"
    by (rule t [THEN conjunct2, THEN conjunct1])
  have s2: "sublist ([CHR 0x0A] @ (txt_total_animals @ ''2'') @ [CHR 0x0A])
        (daily_report 0 (\<lambda>d. ''day '' @ show_nat (nat d)) ex_zoo (Some 1))"
    using t [THEN conjunct2, THEN conjunct2, THEN conjunct1] by (simp only: an n)
  have s3: "sublist ([CHR 0x0A] @ (txt_total_staff @ ''1'') @ [CHR 0x0A])
        (daily_report 0 (\<lambda>d. ''day '' @ show_nat (nat d)) ex_zoo (Some 1))"
    using t [THEN conjunct2, THEN conjunct2, THEN conjunct2, THEN conjunct1]
    by (simp only: st n)
  from an st s1 s2 s3 show ?thesis by (intro conjI)
qed

section \<open>Loading a saved document\<close>

text \<open>The sequencing of results and the lookup of a key, as rewrite rules.\<close>

lemma and_then_Inl: "and_then (Inl e) f = Inl e"
  by (simp add: and_then_def)

lemma and_then_Inr: "and_then (Inr x) f = f x"
  by (simp add: and_then_def)

lemma item_Some: "item k (Some v) = Inr v"
  by (simp add: item_def)

lemma item_None: "item k None = Inl (KeyError k)"
  by (simp add: item_def)

lemmas result_simps = and_then_Inl and_then_Inr item_Some item_None

lemma deserialize_animal_unknown:
  "ad_type a = Some t \<Longrightarrow> t \<notin> {''Bird'', ''Mammal'', ''Reptile''} \<Longrightarrow>
   deserialize_animal r a = Inl (KeyError t)"
  by (simp add: deserialize_animal_def result_simps)

lemma deserialize_staff_unknown:
  "sd_type s = Some t \<Longrightarrow> t \<notin> {''ZooKeeper'', ''Veterinarian'', ''Guide''} \<Longrightarrow>
   deserialize_staff r s = Inl (KeyError t)"
  by (simp add: deserialize_staff_def staff_cls_map_def result_simps)

lemma load_animals_unknown:
  "a \<in> set as \<Longrightarrow> ad_type a = Some t \<Longrightarrow> t \<notin> {''Bird'', ''Mammal'', ''Reptile''} \<Longrightarrow>
   \<exists>err. load_animals as r z = Inl err"
proof (induction as arbitrary: r z)
  case Nil
  then show ?case by simp
next
  case (Cons b bs)
  show ?case
  proof (cases "deserialize_animal r b")
    case (Inl e)
    then show ?thesis by (simp add: and_then_Inl)
  next
    case (Inr x)
    with Cons.prems have "a \<in> set bs"
      by (auto simp: deserialize_animal_unknown)
    from Cons.IH [OF this Cons.prems(2,3)]
    obtain err where "load_animals bs (Suc r) (fst (add_animal x z)) = Inl err"
      by blast
    with Inr show ?thesis
      by (cases "add_animal x z") (auto simp: and_then_Inr and_then_Inl)
  qed
qed

lemma load_staff_unknown:
  "s \<in> set ss \<Longrightarrow> sd_type s = Some t \<Longrightarrow> t \<notin> {''ZooKeeper'', ''Veterinarian'', ''Guide''} \<Longrightarrow>
   \<exists>err. load_staff ss r z = Inl err"
proof (induction ss arbitrary: r z)
  case Nil
  then show ?case by simp
next
  case (Cons b bs)
  show ?case
  proof (cases "deserialize_staff r b")
    case (Inl e)
    then show ?thesis by (simp add: and_then_Inl)
  next
    case (Inr x)
    with Cons.prems have "s \<in> set bs"
      by (auto simp: deserialize_staff_unknown)
    from Cons.IH [OF this Cons.prems(2,3)]
    obtain err where "load_staff bs (Suc r) (fst (add_staff x z)) = Inl err"
      by blast
    with Inr show ?thesis
      by (cases "add_staff x z") (auto simp: and_then_Inr and_then_Inl)
  qed
qed

lemma deserialize_event_generic_fails:
  assumes "ed_type e = Some t" "t \<notin> {''FeedingEvent'', ''MedicalCheckEvent'', ''TourEvent''}"
    and "ed_event_type e = None \<or> (\<exists>n. ed_event_type e = Some n \<and> EventType_named n = None)"
  shows "\<exists>err. deserialize_event e z = Inl err"
proof -
  have tag: "t \<noteq> ''FeedingEvent''" "t \<noteq> ''MedicalCheckEvent''" "t \<noteq> ''TourEvent''"
    using assms(2) by simp_all
  have generic: "\<exists>err. and_then (item ''event_type'' (ed_event_type e)) (\<lambda>ty_name.
         and_then (item ty_name (EventType_named ty_name)) f) = Inl err"
    for f :: "EventType \<Rightarrow> error + zoo_event"
    using assms(3) by (auto simp: result_simps)
  show ?thesis
    unfolding deserialize_event_def
    using generic
    by (cases "ed_start_time e"; cases "ed_duration_seconds e"; cases "find_staff z e";
        cases "find_animals z e")
       (simp_all add: assms(1) tag result_simps)
qed

lemma load_events_skips:
  assumes "\<And>z. \<exists>err. deserialize_event e z = Inl err"
  shows "fst (load_events (pre @ e # post) z) = fst (load_events (pre @ post) z)
         \<and> (\<exists>err. Log ERROR (Event_load_error err) \<in> set (snd (load_events (pre @ e # post) z)))"
proof (induction pre arbitrary: z)
  case Nil
  from assms [of z] obtain err where "deserialize_event e z = Inl err" by blast
  then show ?case
    by (auto split: prod.splits)
next
  case (Cons p ps)
  show ?case
  proof (cases "deserialize_event p z")
    case (Inl err)
    with Cons.IH [of z] show ?thesis
      by (auto split: prod.splits)
  next
    case (Inr ev)
    with Cons.IH [of "fst (schedule_event ev z)"] show ?thesis
      by (auto split: prod.splits)
  qed
qed

lemma find_staff_ids:
  "ed_staff_ids e = Some ids \<Longrightarrow>
   find_staff z e = Inr (filter (\<lambda>s. s_staff_id s \<in> set ids) (z_staff z))"
  by (simp add: find_staff_def result_simps)

lemma find_animals_names:
  "ed_animal_names e = Some names \<Longrightarrow>
   find_animals z e = Inr (filter (\<lambda>a. a_name a \<in> set names) (z_animals z))"
  by (simp add: find_animals_def result_simps)

lemma deserialize_event_generic:
  assumes "ed_type e = Some t" "t \<notin> {''FeedingEvent'', ''MedicalCheckEvent'', ''TourEvent''}"
    and "ed_event_type e = Some n" "EventType_named n = Some ty"
    and "ed_name e = Some nm" "ed_description e = Some ds" "ed_location e = Some lc"
    and "ed_start_time e = Some st" "ed_duration_seconds e = Some du"
    and "ed_staff_ids e = Some ids" "ed_animal_names e = Some names"
  shows "deserialize_event e z =
     Inr (new_ZooEvent ty nm ds st du lc
            (filter (\<lambda>s. s_staff_id s \<in> set ids) (z_staff z))
            (filter (\<lambda>a. a_name a \<in> set names) (z_animals z)))"
proof -
  have tag: "t \<noteq> ''FeedingEvent''" "t \<noteq> ''MedicalCheckEvent''" "t \<noteq> ''TourEvent''"
    using assms(2) by simp_all
  show ?thesis
    unfolding deserialize_event_def
    by (simp add: assms(1,3-9) tag result_simps find_staff_ids [OF assms(10)]
        find_animals_names [OF assms(11)])
qed

lemma Zoo_load_events_skip:
  assumes "\<And>z. \<exists>err. deserialize_event e z = Inl err"
  shows "map_sum id fst (Zoo_load r (data\<lparr>doc_events := Some (pre @ e # post)\<rparr>))
           = map_sum id fst (Zoo_load r (data\<lparr>doc_events := Some (pre @ post)\<rparr>))
         \<and> (\<forall>z' out. Zoo_load r (data\<lparr>doc_events := Some (pre @ e # post)\<rparr>) = Inr (z', out)
              \<longrightarrow> (\<exists>err. Log ERROR (Event_load_error err) \<in> set out))"
proof (cases "load_staff (get_or (doc_staff data) []) r (Zoo_init txt_loaded_zoo)")
  case (Inl err)
  then show ?thesis by (simp add: Zoo_load_def and_then_Inl)
next
  case st: (Inr res1)
  obtain r1 z1 out1 where res1: "res1 = (r1, z1, out1)" by (cases res1)
  show ?thesis
  proof (cases "load_animals (get_or (doc_animals data) []) r1 z1")
    case (Inl err)
    with st res1 show ?thesis by (simp add: Zoo_load_def and_then_Inl and_then_Inr)
  next
    case an: (Inr res2)
    obtain r2 z2 out2 where res2: "res2 = (r2, z2, out2)" by (cases res2)
    from load_events_skips [OF assms, of pre post z2]
    show ?thesis
      using st res1 an res2
      by (auto simp: Zoo_load_def and_then_Inr get_or_def split: prod.splits)
  qed
qed

lemma Zoo_load_animal_unknown:
  assumes "a \<in> set (get_or (doc_animals data) [])" "ad_type a = Some t"
    "t \<notin> {''Bird'', ''Mammal'', ''Reptile''}"
  shows "\<exists>err. Zoo_load r data = Inl err"
proof (cases "load_staff (get_or (doc_staff data) []) r (Zoo_init txt_loaded_zoo)")
  case (Inl err)
  then show ?thesis by (simp add: Zoo_load_def and_then_Inl)
next
  case st: (Inr res1)
  obtain r1 z1 out1 where res1: "res1 = (r1, z1, out1)" by (cases res1)
  from load_animals_unknown [OF assms, of r1 z1]
  obtain err where "load_animals (get_or (doc_animals data) []) r1 z1 = Inl err" by blast
  with st res1 show ?thesis
    by (simp add: Zoo_load_def and_then_Inl and_then_Inr)
qed

lemma Zoo_load_staff_unknown:
  assumes "s \<in> set (get_or (doc_staff data) [])" "sd_type s = Some t"
    "t \<notin> {''ZooKeeper'', ''Veterinarian'', ''Guide''}"
  shows "\<exists>err. Zoo_load r data = Inl err"
proof -
  from load_staff_unknown [OF assms, of r "Zoo_init txt_loaded_zoo"]
  obtain err where "load_staff (get_or (doc_staff data) []) r (Zoo_init txt_loaded_zoo) = Inl err"
    by blast
  then show ?thesis
    by (simp add: Zoo_load_def and_then_Inl)
qed

text \<open>
  Claim C2, amended. During \<^verbatim>\<open>Zoo.load\<close>: an animal record of the document whose type tag
  is none of \<^verbatim>\<open>Bird\<close>, \<^verbatim>\<open>Mammal\<close>, \<^verbatim>\<open>Reptile\<close> makes the whole load raise, and so does a
  staff record whose tag is none of \<^verbatim>\<open>ZooKeeper\<close>, \<^verbatim>\<open>Veterinarian\<close>, \<^verbatim>\<open>Guide\<close>: no zoo
  is returned. An event record whose tag is none of \<^verbatim>\<open>FeedingEvent\<close>,
  \<^verbatim>\<open>MedicalCheckEvent\<close>, \<^verbatim>\<open>TourEvent\<close> is read as a plain \<^verbatim>\<open>ZooEvent\<close>:
  \<^item> when its key \<^verbatim>\<open>event_type\<close> is absent or names no member of \<^verbatim>\<open>EventType\<close>,
    deserializing it raises, the load returns the zoo it returns without that record,
    and a load that returns has logged the error;
  \<^item> when its key \<^verbatim>\<open>event_type\<close> names a member of \<^verbatim>\<open>EventType\<close> and the other keys
    are present, deserializing it raises nothing and returns the plain event with
    that type.
\<close>

theorem load_unknown_type_tag:
  "(a \<in> set (get_or (doc_animals data) []) \<and> ad_type a = Some t
      \<and> t \<notin> {''Bird'', ''Mammal'', ''Reptile''}
     \<longrightarrow> (\<exists>err. Zoo_load r data = Inl err))
   \<and> (s \<in> set (get_or (doc_staff data) []) \<and> sd_type s = Some t
        \<and> t \<notin> {''ZooKeeper'', ''Veterinarian'', ''Guide''}
       \<longrightarrow> (\<exists>err. Zoo_load r data = Inl err))
   \<and> (ed_type e = Some t \<and> t \<notin> {''FeedingEvent'', ''MedicalCheckEvent'', ''TourEvent''}
       \<longrightarrow>
         (ed_event_type e = None \<or> (\<exists>n. ed_event_type e = Some n \<and> EventType_named n = None)
          \<longrightarrow> (\<exists>err. deserialize_event e z = Inl err)
             \<and> map_sum id fst (Zoo_load r (data\<lparr>doc_events := Some (pre @ e # post)\<rparr>))
                 = map_sum id fst (Zoo_load r (data\<lparr>doc_events := Some (pre @ post)\<rparr>))
             \<and> (\<forall>z' out.
                   Zoo_load r (data\<lparr>doc_events := Some (pre @ e # post)\<rparr>) = Inr (z', out)
                   \<longrightarrow> (\<exists>err. Log ERROR (Event_load_error err) \<in> set out)))
         \<and> (ed_event_type e = Some n \<and> EventType_named n = Some ty
              \<and> ed_name e = Some nm \<and> ed_description e = Some ds \<and> ed_location e = Some lc
              \<and> ed_start_time e = Some st \<and> ed_duration_seconds e = Some du
              \<and> ed_staff_ids e = Some ids \<and> ed_animal_names e = Some names
            \<longrightarrow> deserialize_event e z =
                  Inr (new_ZooEvent ty nm ds st du lc
                         (filter (\<lambda>s. s_staff_id s \<in> set ids) (z_staff z))
                         (filter (\<lambda>a. a_name a \<in> set names) (z_animals z)))))"
proof (intro conjI impI)
  assume "a \<in> set (get_or (doc_animals data) []) \<and> ad_type a = Some t
      \<and> t \<notin> {''Bird'', ''Mammal'', ''Reptile''}"
  then show "\<exists>err. Zoo_load r data = Inl err"
    using Zoo_load_animal_unknown [of a data t r] by blast
next
  assume "s \<in> set (get_or (doc_staff data) []) \<and> sd_type s = Some t
        \<and> t \<notin> {''ZooKeeper'', ''Veterinarian'', ''Guide''}"
  then show "\<exists>err. Zoo_load r data = Inl err"
    using Zoo_load_staff_unknown [of s data t r] by blast
next
  assume tag: "ed_type e = Some t \<and> t \<notin> {''FeedingEvent'', ''MedicalCheckEvent'', ''TourEvent''}"
    and bad: "ed_event_type e = None \<or> (\<exists>n. ed_event_type e = Some n \<and> EventType_named n = None)"
  have fails: "\<exists>err. deserialize_event e z = Inl err" for z
    using deserialize_event_generic_fails [of e t z] tag bad by blast
  from fails show "\<exists>err. deserialize_event e z = Inl err" .
  from Zoo_load_events_skip [where e = e and r = r and data = data and pre = pre and post = post,
      OF fails]
  show "map_sum id fst (Zoo_load r (data\<lparr>doc_events := Some (pre @ e # post)\<rparr>))
                 = map_sum id fst (Zoo_load r (data\<lparr>doc_events := Some (pre @ post)\<rparr>))"
    by blast
  from Zoo_load_events_skip [where e = e and r = r and data = data and pre = pre and post = post,
      OF fails]
  show "\<forall>z' out.
                   Zoo_load r (data\<lparr>doc_events := Some (pre @ e # post)\<rparr>) = Inr (z', out)
                   \<longrightarrow> (\<exists>err. Log ERROR (Event_load_error err) \<in> set out)"
    by blast
next
  assume tag: "ed_type e = Some t \<and> t \<notin> {''FeedingEvent'', ''MedicalCheckEvent'', ''TourEvent''}"
    and ok: "ed_event_type e = Some n \<and> EventType_named n = Some ty
              \<and> ed_name e = Some nm \<and> ed_description e = Some ds \<and> ed_location e = Some lc
              \<and> ed_start_time e = Some st \<and> ed_duration_seconds e = Some du
              \<and> ed_staff_ids e = Some ids \<and> ed_animal_names e = Some names"
  then show "deserialize_event e z =
                  Inr (new_ZooEvent ty nm ds st du lc
                         (filter (\<lambda>s. s_staff_id s \<in> set ids) (z_staff z))
                         (filter (\<lambda>a. a_name a \<in> set names) (z_animals z)))"
    using deserialize_event_generic [of e t n ty nm ds lc st du ids names z] by blast
qed

text \<open>The definitions a load of a concrete document is evaluated with.\<close>

lemmas storage_defs =
  Zoo_load_def deserialize_animal_def deserialize_staff_def deserialize_event_def
  serialize_animal_def serialize_staff_def serialize_event_def save_def
  staff_cls_map_def EventType_named_def find_staff_def find_animals_def get_or_def
  animal_class_name_def staff_class_name_def event_class_name_def

lemmas registry_defs =
  Zoo_init_def add_animal_def add_staff_def schedule_event_def animal_in_def staff_in_def
  set_add_def

lemmas sample_defs =
  ex_bird_def ex_cat_def ex_keeper_def ex_zoo_def ex_check_def ex_feeding_def ex_show_def
  ex_show_zoo_def ex_dragon_data_def ex_intern_data_def ex_party_data_def
  ex_gala_data_def ex_doc_def

lemma ex_dragon_load:
  "Zoo_load 0 (ex_doc [serialize_animal ex_cat, ex_dragon_data] [] []) = Inl (KeyError ''Dragon'')"
  by (simp add: storage_defs registry_defs sample_defs new_animal_defs result_simps)

lemma ex_intern_load:
  "Zoo_load 0 (ex_doc [] [ex_intern_data] []) = Inl (KeyError ''Intern'')"
  by (simp add: storage_defs registry_defs sample_defs result_simps)

lemma ex_show_deserialize:
  "deserialize_event (serialize_event ex_show) (Zoo_init txt_loaded_zoo)
     = Inl (KeyError ''event_type'')"
  by (simp add: storage_defs registry_defs sample_defs new_event_defs result_simps)

lemma ex_three_events_load:
  "map_sum id (z_events \<circ> fst)
     (Zoo_load 0 (ex_doc [] []
        [serialize_event ex_feeding, serialize_event ex_show, serialize_event ex_check]))
   = Inr [ex_feeding, ex_check]"
  by (simp add: storage_defs registry_defs sample_defs new_event_defs result_simps
      or_default_def)

text \<open>
  The theorem on the sample records: the documents holding the \<^verbatim>\<open>Dragon\<close> and the
  \<^verbatim>\<open>Intern\<close> do not load; the \<^verbatim>\<open>GalaEvent\<close> without \<^verbatim>\<open>event_type\<close> raises and the load
  of feeding, gala, check returns the zoo of feeding, check; the \<^verbatim>\<open>PartyEvent\<close> with
  \<^verbatim>\<open>event_type\<close> \<^verbatim>\<open>SHOW\<close> is read as the show.
\<close>

theorem load_unknown_type_tag_witness:
  "(\<exists>err. Zoo_load 0 (ex_doc [serialize_animal ex_cat, ex_dragon_data] [] []) = Inl err)
   \<and> (\<exists>err. Zoo_load 0 (ex_doc [] [ex_intern_data] []) = Inl err)
   \<and> ed_type ex_gala_data = Some ''GalaEvent'' \<and> ed_event_type ex_gala_data = None
   \<and> (\<exists>err. deserialize_event ex_gala_data (Zoo_init txt_loaded_zoo) = Inl err)
   \<and> map_sum id fst
        (Zoo_load 0 (ex_doc [] [] [serialize_event ex_feeding, ex_gala_data, serialize_event ex_check]))
      = map_sum id fst
        (Zoo_load 0 (ex_doc [] [] [serialize_event ex_feeding, serialize_event ex_check]))
   \<and> ed_type ex_party_data = Some ''PartyEvent'' \<and> ed_event_type ex_party_data = Some ''SHOW''
   \<and> deserialize_event ex_party_data (Zoo_init txt_loaded_zoo)
      = Inr (new_ZooEvent SHOW ''Parrot show'' ''Daily parrot show'' 50400000000 1800000000
               ''Arena'' [] [])"
proof -
  have dragon: "ex_dragon_data \<in> set (get_or (doc_animals
        (ex_doc [serialize_animal ex_cat, ex_dragon_data] [] [])) [])
      \<and> ad_type ex_dragon_data = Some ''Dragon'' \<and> ''Dragon'' \<notin> {''Bird'', ''Mammal'', ''Reptile''}"
    by (simp add: ex_doc_def get_or_def ex_dragon_data_def)
  have intern: "ex_intern_data \<in> set (get_or (doc_staff (ex_doc [] [ex_intern_data] [])) [])
      \<and> sd_type ex_intern_data = Some ''Intern''
      \<and> ''Intern'' \<notin> {''ZooKeeper'', ''Veterinarian'', ''Guide''}"
    by (simp add: ex_doc_def get_or_def ex_intern_data_def)
  have gala: "ed_type ex_gala_data = Some ''GalaEvent''
      \<and> ''GalaEvent'' \<notin> {''FeedingEvent'', ''MedicalCheckEvent'', ''TourEvent''}"
    by (simp add: ex_gala_data_def)
  have gala_none: "ed_event_type ex_gala_data = None"
    by (simp add: ex_gala_data_def serialize_event_def ex_show_def new_event_defs)
  have party: "ed_type ex_party_data = Some ''PartyEvent''
      \<and> ''PartyEvent'' \<notin> {''FeedingEvent'', ''MedicalCheckEvent'', ''TourEvent''}"
    by (simp add: ex_party_data_def)
  have party_fields: "ed_event_type ex_party_data = Some ''SHOW''
      \<and> EventType_named ''SHOW'' = Some SHOW
      \<and> ed_name ex_party_data = Some ''Parrot show''
      \<and> ed_description ex_party_data = Some ''Daily parrot show''
      \<and> ed_location ex_party_data = Some ''Arena''
      \<and> ed_start_time ex_party_data = Some 50400000000
      \<and> ed_duration_seconds ex_party_data = Some 1800000000
      \<and> ed_staff_ids ex_party_data = Some []
      \<and> ed_animal_names ex_party_data = Some []"
    by (simp add: ex_party_data_def serialize_event_def ex_show_def new_event_defs
        EventType_named_def)
  have c1: "\<exists>err. Zoo_load 0 (ex_doc [serialize_animal ex_cat, ex_dragon_data] [] []) = Inl err"
    using load_unknown_type_tag [where a = ex_dragon_data and t = "''Dragon''" and r = 0
        and data = "ex_doc [serialize_animal ex_cat, ex_dragon_data] [] []",
        THEN conjunct1, THEN mp, OF dragon] .
  have c2: "\<exists>err. Zoo_load 0 (ex_doc [] [ex_intern_data] []) = Inl err"
    using load_unknown_type_tag [where s = ex_intern_data and t = "''Intern''" and r = 0
        and data = "ex_doc [] [ex_intern_data] []",
        THEN conjunct2, THEN conjunct1, THEN mp, OF intern] .
  note ev = load_unknown_type_tag [where e = ex_gala_data and t = "''GalaEvent''" and r = 0
        and data = "ex_doc [] [] []" and z = "Zoo_init txt_loaded_zoo"
        and pre = "[serialize_event ex_feeding]" and post = "[serialize_event ex_check]",
        THEN conjunct2, THEN conjunct2, THEN mp, OF gala, THEN conjunct1, THEN mp,
        OF disjI1, OF gala_none]
  have c3: "\<exists>err. deserialize_event ex_gala_data (Zoo_init txt_loaded_zoo) = Inl err"
    using ev by blast
  have c4: "map_sum id fst
        (Zoo_load 0 (ex_doc [] [] [serialize_event ex_feeding, ex_gala_data, serialize_event ex_check]))
      = map_sum id fst
        (Zoo_load 0 (ex_doc [] [] [serialize_event ex_feeding, serialize_event ex_check]))"
    using ev [THEN conjunct2, THEN conjunct1] by (simp add: ex_doc_def)
  have c5: "deserialize_event ex_party_data (Zoo_init txt_loaded_zoo)
      = Inr (new_ZooEvent SHOW ''Parrot show'' ''Daily parrot show'' 50400000000 1800000000
               ''Arena'' [] [])"
    using load_unknown_type_tag [where e = ex_party_data and t = "''PartyEvent''"
        and z = "Zoo_init txt_loaded_zoo",
        THEN conjunct2, THEN conjunct2, THEN mp, OF party, THEN conjunct2, THEN mp,
        OF party_fields]
    by (simp add: Zoo_init_def)
  from c1 c2 gala [THEN conjunct1] gala_none c3 c4 party [THEN conjunct1]
    party_fields [THEN conjunct1] c5
  show ?thesis by (intro conjI)
qed

text \<open>
  The claim as worded, that every event record with an unknown type tag raises and is
  skipped, fails on the record tagged \<^verbatim>\<open>PartyEvent\<close>: it is deserialized without an error,
  and the loaded zoo holds the event.
\<close>

theorem load_generic_event_counterexample:
  "ed_type ex_party_data = Some ''PartyEvent''
   \<and> deserialize_event ex_party_data (Zoo_init txt_loaded_zoo) = Inr ex_show
   \<and> map_sum id (z_events \<circ> fst) (Zoo_load 0 (ex_doc [] [] [ex_party_data])) = Inr [ex_show]"
  by (simp add: storage_defs registry_defs sample_defs new_event_defs result_simps)

section \<open>The round trip of save and load\<close>

lemma deserialize_serialize_animal:
  "\<exists>a'. deserialize_animal r (serialize_animal a) = Inr a' \<and> a_ref a' = r \<and> a_name a' = a_name a"
  by (cases "a_body a")
     (simp_all add: deserialize_animal_def serialize_animal_def animal_class_name_def
        result_simps new_animal_defs)

lemma deserialize_serialize_staff:
  "\<exists>s'. deserialize_staff r (serialize_staff s) = Inr s' \<and> s_ref s' = r \<and> s_name s' = s_name s"
  by (cases "s_class s")
     (simp_all add: deserialize_staff_def serialize_staff_def staff_class_name_def
        staff_cls_map_def result_simps)

lemma load_animals_serialized:
  "\<forall>x \<in> set (z_animals z). a_ref x < r \<Longrightarrow>
   \<exists>z' out. load_animals (map serialize_animal as) r z = Inr (r + length as, z', out)
     \<and> map a_name (z_animals z') = map a_name (z_animals z) @ map a_name as
     \<and> z_staff z' = z_staff z \<and> z_events z' = z_events z"
proof (induction as arbitrary: r z)
  case Nil
  then show ?case by simp
next
  case (Cons a as)
  obtain a' where a': "deserialize_animal r (serialize_animal a) = Inr a'" "a_ref a' = r"
      "a_name a' = a_name a"
    using deserialize_serialize_animal by blast
  have fresh: "\<not> animal_in a' (z_animals z)"
    using Cons.prems a'(2) by (auto simp: animal_in_def)
  let ?z1 = "fst (add_animal a' z)"
  have z1: "z_animals ?z1 = z_animals z @ [a']" "z_staff ?z1 = z_staff z"
      "z_events ?z1 = z_events z"
    using fresh by (simp_all add: add_animal_def)
  have "\<forall>x \<in> set (z_animals ?z1). a_ref x < Suc r"
    using Cons.prems a'(2) by (auto simp: z1 less_Suc_eq)
  from Cons.IH [OF this] obtain z' out where
    rest: "load_animals (map serialize_animal as) (Suc r) ?z1 = Inr (Suc r + length as, z', out)"
      "map a_name (z_animals z') = map a_name (z_animals ?z1) @ map a_name as"
      "z_staff z' = z_staff ?z1" "z_events z' = z_events ?z1"
    by blast
  have "load_animals (map serialize_animal (a # as)) r z
        = Inr (r + length (a # as), z', snd (add_animal a' z) @ out)"
    using a'(1) rest(1) by (cases "add_animal a' z") (simp add: and_then_Inr)
  moreover have "map a_name (z_animals z') = map a_name (z_animals z) @ map a_name (a # as)"
    using rest(2) by (simp add: z1 a'(3))
  ultimately show ?case
    using rest(3,4) z1 by auto
qed

lemma load_staff_serialized:
  "\<forall>x \<in> set (z_staff z). s_ref x < r \<Longrightarrow>
   \<exists>z' out. load_staff (map serialize_staff ss) r z = Inr (r + length ss, z', out)
     \<and> map s_name (z_staff z') = map s_name (z_staff z) @ map s_name ss
     \<and> z_animals z' = z_animals z \<and> z_events z' = z_events z"
proof (induction ss arbitrary: r z)
  case Nil
  then show ?case by simp
next
  case (Cons s ss)
  obtain s' where s': "deserialize_staff r (serialize_staff s) = Inr s'" "s_ref s' = r"
      "s_name s' = s_name s"
    using deserialize_serialize_staff by blast
  have fresh: "\<not> staff_in s' (z_staff z)"
    using Cons.prems s'(2) by (auto simp: staff_in_def)
  let ?z1 = "fst (add_staff s' z)"
  have z1: "z_staff ?z1 = z_staff z @ [s']" "z_animals ?z1 = z_animals z"
      "z_events ?z1 = z_events z"
    using fresh by (simp_all add: add_staff_def)
  have "\<forall>x \<in> set (z_staff ?z1). s_ref x < Suc r"
    using Cons.prems s'(2) by (auto simp: z1 less_Suc_eq)
  from Cons.IH [OF this] obtain z' out where
    rest: "load_staff (map serialize_staff ss) (Suc r) ?z1 = Inr (Suc r + length ss, z', out)"
      "map s_name (z_staff z') = map s_name (z_staff ?z1) @ map s_name ss"
      "z_animals z' = z_animals ?z1" "z_events z' = z_events ?z1"
    by blast
  have "load_staff (map serialize_staff (s # ss)) r z
        = Inr (r + length (s # ss), z', snd (add_staff s' z) @ out)"
    using s'(1) rest(1) by (cases "add_staff s' z") (simp add: and_then_Inr)
  moreover have "map s_name (z_staff z') = map s_name (z_staff z) @ map s_name (s # ss)"
    using rest(2) by (simp add: z1 s'(3))
  ultimately show ?case
    using rest(3,4) z1 by auto
qed

lemma find_staff_serialized: "\<exists>stf. find_staff z (serialize_event e) = Inr stf"
  by (cases "e_class e") (simp_all add: find_staff_def serialize_event_def result_simps)

lemma find_animals_serialized: "\<exists>anims. find_animals z (serialize_event e) = Inr anims"
  by (cases "e_class e") (simp_all add: find_animals_def serialize_event_def result_simps)

lemma deserialize_serialize_event:
  "e_class e \<noteq> ZooEvent \<Longrightarrow> \<exists>e'. deserialize_event (serialize_event e) z = Inr e'"
  "e_class e = ZooEvent \<Longrightarrow> deserialize_event (serialize_event e) z = Inl (KeyError ''event_type'')"
proof -
  obtain stf anims where f: "find_staff z (serialize_event e) = Inr stf"
      "find_animals z (serialize_event e) = Inr anims"
    using find_staff_serialized find_animals_serialized by blast
  show "e_class e \<noteq> ZooEvent \<Longrightarrow> \<exists>e'. deserialize_event (serialize_event e) z = Inr e'"
    unfolding deserialize_event_def f
    by (cases "e_class e") (simp_all add: serialize_event_def event_class_name_def result_simps)
  show "e_class e = ZooEvent \<Longrightarrow>
      deserialize_event (serialize_event e) z = Inl (KeyError ''event_type'')"
    unfolding deserialize_event_def f
    by (simp add: serialize_event_def event_class_name_def result_simps)
qed

lemma fst_load_events_Cons:
  "fst (load_events (d # ds) z) =
     (case deserialize_event d z of
        Inl err \<Rightarrow> fst (load_events ds z)
      | Inr ev \<Rightarrow> fst (load_events ds (fst (schedule_event ev z))))"
  by (simp split: sum.splits prod.splits)

lemma load_events_serialized:
  "length (z_events (fst (load_events (map serialize_event es) z)))
     = length (z_events z) + length (filter (\<lambda>e. e_class e \<noteq> ZooEvent) es)
   \<and> z_animals (fst (load_events (map serialize_event es) z)) = z_animals z
   \<and> z_staff (fst (load_events (map serialize_event es) z)) = z_staff z"
proof (induction es arbitrary: z)
  case Nil
  then show ?case by simp
next
  case (Cons e es)
  show ?case
  proof (cases "e_class e = ZooEvent")
    case True
    from deserialize_serialize_event(2) [OF True, of z] Cons.IH [of z] True
    show ?thesis by (simp add: fst_load_events_Cons del: load_events.simps)
  next
    case False
    from deserialize_serialize_event(1) [OF False, of z]
    obtain e' where "deserialize_event (serialize_event e) z = Inr e'" by blast
    with Cons.IH [of "fst (schedule_event e' z)"] False
    show ?thesis by (simp add: fst_load_events_Cons schedule_event_def del: load_events.simps)
  qed
qed

lemma save_then_load:
  assumes "fmt = ''json'' \<or> fmt = ''pickle'' \<or> fmt = ''yaml''"
  shows "\<exists>z' out. and_then (save now z fmt) (Zoo_load r) = Inr (z', out)
     \<and> map a_name (z_animals z') = map a_name (z_animals z)
     \<and> map s_name (z_staff z') = map s_name (z_staff z)
     \<and> length (z_events z') = length (filter (\<lambda>e. e_class e \<noteq> ZooEvent) (z_events z))"
proof -
  let ?z0 = "Zoo_init txt_loaded_zoo"
  have z0: "z_animals ?z0 = []" "z_staff ?z0 = []" "z_events ?z0 = []"
    by (simp_all add: Zoo_init_def)
  have "\<forall>x \<in> set (z_staff ?z0). s_ref x < r" by (simp add: z0)
  from load_staff_serialized [OF this, of "z_staff z"] obtain z1 out1 where
    s: "load_staff (map serialize_staff (z_staff z)) r ?z0 = Inr (r + length (z_staff z), z1, out1)"
      "map s_name (z_staff z1) = map s_name (z_staff z)" "z_animals z1 = []" "z_events z1 = []"
    by (auto simp: z0)
  have "\<forall>x \<in> set (z_animals z1). a_ref x < r + length (z_staff z)" by (simp add: s(3))
  from load_animals_serialized [OF this, of "z_animals z"] obtain z2 out2 where
    a: "load_animals (map serialize_animal (z_animals z)) (r + length (z_staff z)) z1
          = Inr (r + length (z_staff z) + length (z_animals z), z2, out2)"
      "map a_name (z_animals z2) = map a_name (z_animals z)" "z_staff z2 = z_staff z1"
      "z_events z2 = []"
    by (auto simp: s(3,4))
  let ?l = "load_events (map serialize_event (z_events z)) z2"
  have e: "length (z_events (fst ?l)) = length (filter (\<lambda>e. e_class e \<noteq> ZooEvent) (z_events z))"
      "z_animals (fst ?l) = z_animals z2" "z_staff (fst ?l) = z_staff z2"
    using load_events_serialized [of "z_events z" z2] by (simp_all add: a(4))
  have "and_then (save now z fmt) (Zoo_load r)
        = Inr (fst ?l, out1 @ out2 @ snd ?l @ [Log INFO Data_loaded])"
    using assms s(1) a(1)
    by (auto simp: save_def Zoo_load_def get_or_def and_then_Inr split: prod.splits)
  then show ?thesis
    using e a(2,3) s(2) by auto
qed

text \<open>
  Claim C1. Saving the sample zoo with one plain \<^verbatim>\<open>ZooEvent\<close> scheduled and loading what
  was saved returns a zoo with the two animal names in their order and one staff
  member, but with no event: the count of events is 0, not 1. By \<open>save_then_load\<close> the
  counts of animals and staff and the animal names are kept for every zoo, and the count
  of events is the count of the events that are not plain \<^verbatim>\<open>ZooEvent\<close>s.
\<close>

theorem roundtrip_drops_plain_event:
  "z_events ex_show_zoo = [ex_show]
   \<and> map_sum id (z_events \<circ> fst) (and_then (save 0 ex_show_zoo ''json'') (Zoo_load 10)) = Inr []
   \<and> map_sum id (map a_name \<circ> z_animals \<circ> fst)
        (and_then (save 0 ex_show_zoo ''json'') (Zoo_load 10)) = Inr [''Kesha'', ''Barsik'']
   \<and> map_sum id (length \<circ> z_staff \<circ> fst)
        (and_then (save 0 ex_show_zoo ''json'') (Zoo_load 10)) = Inr 1"
  by (simp add: storage_defs registry_defs sample_defs new_event_defs new_animal_defs
      result_simps)

end
